theory Spec2Isabelle
  imports Main
begin

section \<open>Strings and renderer messages\<close>

text \<open>
  The host orchestrator of \<^verbatim>\<open>src/electron/main.js\<close> recognises what its child
  processes print by substring tests on the text of each chunk. A chunk is a
  \<^typ>\<open>string\<close>; \<^verbatim>\<open>String.prototype.startsWith\<close> and
  \<^verbatim>\<open>String.prototype.includes\<close> are the two tests the file uses.
\<close>

fun startsWith :: "string \<Rightarrow> string \<Rightarrow> bool" where
  "startsWith s [] = True"
| "startsWith [] (p # ps) = False"
| "startsWith (c # cs) (p # ps) = (c = p \<and> startsWith cs ps)"

fun str_includes :: "string \<Rightarrow> string \<Rightarrow> bool" where
  "str_includes [] sub = (sub = [])"
| "str_includes (c # cs) sub = (startsWith (c # cs) sub \<or> str_includes cs sub)"

text \<open>\<^verbatim>\<open>Array.prototype.join\<close> with a separator.\<close>

fun join :: "string \<Rightarrow> string list \<Rightarrow> string" where
  "join sep [] = []"
| "join sep [x] = x"
| "join sep (x # y # ys) = x @ sep @ join sep (y # ys)"

text \<open>
  What \<^verbatim>\<open>mainWindow.webContents.send\<close> delivers to the renderer: the channels
  \<^verbatim>\<open>api-ready\<close>, \<^verbatim>\<open>api-error\<close>, \<^verbatim>\<open>show-login\<close> and
  \<^verbatim>\<open>display-error\<close>.
\<close>

datatype ipc = ApiReady int | ApiError string | ShowLogin | DisplayError string

text \<open>
  Every send of the file is guarded by \<^verbatim>\<open>if (mainWindow)\<close>; \<open>mw\<close> says whether
  the window reference is set.
\<close>

definition sendIf :: "bool \<Rightarrow> ipc \<Rightarrow> ipc list \<Rightarrow> ipc list" where
  "sendIf mw m out = (if mw then out @ [m] else out)"

section \<open>Locating the API script\<close>

text \<open>
  \<^verbatim>\<open>findApiPath\<close> walks six candidate paths and returns the first one that
  \<^verbatim>\<open>fs.existsSync\<close> accepts. When none exists it sends an \<^verbatim>\<open>api-error\<close>
  (if there is a window) and throws. The candidate paths come from the process
  (\<^verbatim>\<open>__dirname\<close>, the working directory, the application path) and are a parameter
  here, as is the file system test. The result is the messages sent and either the
  thrown error's message (\<open>Inl\<close>) or the path (\<open>Inr\<close>).
\<close>

record credentials =
  clientId :: "string option"
  clientSecret :: "string option"
  tenantId :: "string option"

text \<open>
  \<^verbatim>\<open>spawn\<close> is called with the credentials as environment variables, inside the
  \<^verbatim>\<open>try\<close> of its caller, and can throw before any process exists (Node refuses, for
  one, an environment value that holds a null byte). \<open>spawnError\<close> gives the message
  of the error that \<^verbatim>\<open>spawn\<close> throws for the given credentials, if it throws.
\<close>

record env =
  possibleApiPaths :: "string list"
  existsSync :: "string \<Rightarrow> bool"
  development :: bool
  spawnError :: "credentials \<Rightarrow> string option"

text \<open>
  An environment of \<^verbatim>\<open>spawn\<close> that refuses a null byte in a credential and
  accepts everything else.
\<close>

fun nullByte :: "string option \<Rightarrow> bool" where
  "nullByte None = False"
| "nullByte (Some s) = (CHR 0x00 \<in> set s)"

definition nullByteCheck :: "credentials \<Rightarrow> string option" where
  "nullByteCheck c =
     (if nullByte (clientId c) \<or> nullByte (clientSecret c) \<or> nullByte (tenantId c)
      then Some ''The property must be a string without null bytes'' else None)"

fun firstExisting :: "(string \<Rightarrow> bool) \<Rightarrow> string list \<Rightarrow> string option" where
  "firstExisting ex [] = None"
| "firstExisting ex (testPath # rest) =
     (if ex testPath then Some testPath else firstExisting ex rest)"

definition findApiPath :: "env \<Rightarrow> bool \<Rightarrow> ipc list \<times> (string + string)" where
  "findApiPath e mw =
     (case firstExisting (existsSync e) (possibleApiPaths e) of
        Some testPath \<Rightarrow> ([], Inr testPath)
      | None \<Rightarrow>
          (sendIf mw (ApiError ''Could not locate the API module. Please check your installation.'') [],
           Inl ''Could not locate API api.py file''))"

section \<open>Credential verification\<close>

text \<open>
  \<^verbatim>\<open>verifyCredentials\<close> returns a promise. Its executor runs
  \<^verbatim>\<open>findApiPath\<close> and \<^verbatim>\<open>spawn\<close> (the worker with \<^verbatim>\<open>--verify-only\<close>) inside a
  \<^verbatim>\<open>try\<close> whose \<^verbatim>\<open>catch\<close> rejects the promise, and registers three handlers and a
  timer of 15000 ms. The variables the handlers share are the fields of \<open>verify\<close>;
  \<open>promise\<close> is \<open>None\<close> while the promise is pending, and a promise that is settled
  ignores every later \<^verbatim>\<open>resolve\<close>.
\<close>

datatype settled = Resolved bool | Rejected string

record verify =
  authOutput :: string
  authError :: string
  authSuccess :: bool
  authFailed :: bool
  verifyKilled :: bool
  timeoutCleared :: bool
  timeoutFired :: bool
  promise :: "settled option"
  verifySent :: "ipc list"


definition verifyInit :: verify where
  "verifyInit =
     \<lparr>authOutput = [], authError = [], authSuccess = False, authFailed = False,
      verifyKilled = False, timeoutCleared = False, timeoutFired = False,
      promise = None, verifySent = []\<rparr>"

definition resolve :: "bool \<Rightarrow> verify \<Rightarrow> verify" where
  "resolve b v = (case promise v of None \<Rightarrow> v\<lparr>promise := Some (Resolved b)\<rparr> | Some r \<Rightarrow> v)"

definition verifySend :: "bool \<Rightarrow> ipc \<Rightarrow> verify \<Rightarrow> verify" where
  "verifySend mw m v = v\<lparr>verifySent := sendIf mw m (verifySent v)\<rparr>"

text \<open>The handler of \<^verbatim>\<open>verifyProcess.stdout.on('data')\<close>.\<close>

definition verifyStdout :: "string \<Rightarrow> verify \<Rightarrow> verify" where
  "verifyStdout output v0 =
     (let v = v0\<lparr>authOutput := authOutput v0 @ output\<rparr> in
      if str_includes output ''Authentication successful''
           \<or> str_includes output ''Token acquired successfully''
      then resolve True (v\<lparr>authSuccess := True, timeoutCleared := True, verifyKilled := True\<rparr>)
      else v)"

text \<open>The handler of \<^verbatim>\<open>verifyProcess.stderr.on('data')\<close>.\<close>

definition verifyStderr :: "bool \<Rightarrow> string \<Rightarrow> verify \<Rightarrow> verify" where
  "verifyStderr mw output v0 =
     (let v = v0\<lparr>authError := authError v0 @ output\<rparr> in
      if str_includes output ''INFO:'' \<and> str_includes output ''access token''
      then resolve True (v\<lparr>authSuccess := True, timeoutCleared := True, verifyKilled := True\<rparr>)
      else if str_includes output ''Authentication failed''
                \<or> str_includes output ''Invalid client''
                \<or> str_includes output ''AADSTS''
      then resolve False
             (verifySend mw
                (ApiError ''Authentication failed: Invalid client ID, client secret, or tenant ID.'')
                (v\<lparr>authFailed := True, authSuccess := False, timeoutCleared := True,
                   verifyKilled := True\<rparr>))
      else v)"

text \<open>
  The handler of \<^verbatim>\<open>verifyProcess.on('close')\<close>. The exit code is \<open>None\<close> for
  JavaScript's \<^verbatim>\<open>null\<close> (the process was ended by a signal).
\<close>

definition successIndicators :: "verify \<Rightarrow> bool" where
  "successIndicators v =
     (str_includes (authOutput v) ''Authentication successful''
      \<or> str_includes (authError v) ''access token''
      \<or> (str_includes (authOutput v) ''Token'' \<and> str_includes (authOutput v) ''success''))"

definition verifyClose :: "bool \<Rightarrow> int option \<Rightarrow> verify \<Rightarrow> verify" where
  "verifyClose mw code v =
     (if authSuccess v then resolve True v
      else if authFailed v then resolve False v
      else if code = Some 0 then resolve True v
      else if code = None then
        (if authSuccess v \<or> str_includes (authOutput v) ''Authentication successful''
              \<or> str_includes (authOutput v) ''Token acquired successfully''
         then resolve True v
         else if successIndicators v then resolve True v
         else resolve False
                (verifySend mw
                   (ApiError ''Credential verification interrupted. Please try again.'') v))
      else
        (if successIndicators v then resolve True v
         else resolve False
                (verifySend mw
                   (if str_includes (authOutput v) ''Authentication failed''
                         \<or> str_includes (authError v) ''Authentication failed''
                    then ApiError ''Authentication failed: Invalid client ID, client secret, or tenant ID.''
                    else ApiError ''Credential verification failed. Please check your credentials and try again.'')
                   v)))"

text \<open>
  The callback of the timer \<^verbatim>\<open>verifyTimeout\<close>. Its guard
  \<^verbatim>\<open>if (verifyProcess)\<close> tests an object and is always taken.
\<close>

definition timeoutSuccess :: "verify \<Rightarrow> bool" where
  "timeoutSuccess v =
     (authSuccess v \<or> str_includes (authOutput v) ''Authentication successful''
      \<or> str_includes (authOutput v) ''Token acquired successfully''
      \<or> str_includes (authError v) ''access token'')"

definition verifyTimeout :: "bool \<Rightarrow> verify \<Rightarrow> verify" where
  "verifyTimeout mw v =
     (if timeoutSuccess v then resolve True v
      else resolve False
             (verifySend mw
                (ApiError ''Credential verification timed out. Please check your network connection and try again.'')
                (v\<lparr>verifyKilled := True\<rparr>)))"

text \<open>
  What happens to the verification process, in the order it happens. The timer runs
  its callback once, and not at all after \<^verbatim>\<open>clearTimeout\<close>.
\<close>

datatype vevent = Stdout string | Stderr string | Close "int option" | Timeout

fun verifyStep :: "bool \<Rightarrow> verify \<Rightarrow> vevent \<Rightarrow> verify" where
  "verifyStep mw v (Stdout output) = verifyStdout output v"
| "verifyStep mw v (Stderr output) = verifyStderr mw output v"
| "verifyStep mw v (Close code) = verifyClose mw code v"
| "verifyStep mw v Timeout =
     (if timeoutCleared v \<or> timeoutFired v then v
      else verifyTimeout mw (v\<lparr>timeoutFired := True\<rparr>))"

definition verifyRun :: "bool \<Rightarrow> verify \<Rightarrow> vevent list \<Rightarrow> verify" where
  "verifyRun mw v evs = foldl (verifyStep mw) v evs"

definition verifyCredentials :: "env \<Rightarrow> bool \<Rightarrow> credentials \<Rightarrow> vevent list \<Rightarrow> verify" where
  "verifyCredentials e mw creds evs =
     (case findApiPath e mw of
        (msgs, Inl err) \<Rightarrow> verifyInit\<lparr>promise := Some (Rejected err), verifySent := msgs\<rparr>
      | (msgs, Inr apiPath) \<Rightarrow>
          (case spawnError e creds of
             Some err \<Rightarrow> verifyInit\<lparr>promise := Some (Rejected err), verifySent := msgs\<rparr>
           | None \<Rightarrow> verifyRun mw (verifyInit\<lparr>verifySent := msgs\<rparr>) evs))"




text \<open>
  The output collected so far, as the events give it: the stdout chunks and the stderr
  chunks, each joined in the order of arrival.
\<close>

fun stdoutChunk :: "vevent \<Rightarrow> string" where
  "stdoutChunk (Stdout output) = output"
| "stdoutChunk ev = []"

fun stderrChunk :: "vevent \<Rightarrow> string" where
  "stderrChunk (Stderr output) = output"
| "stderrChunk ev = []"

definition stdoutText :: "vevent list \<Rightarrow> string" where
  "stdoutText evs = concat (map stdoutChunk evs)"

definition stderrText :: "vevent list \<Rightarrow> string" where
  "stderrText evs = concat (map stderrChunk evs)"

section \<open>Port allocation\<close>

text \<open>
  \<^verbatim>\<open>findAvailablePort\<close> tries to bind a transient listener on each port of
  \<open>startPort .. endPort\<close> in turn. The bind test (an \<^verbatim>\<open>await\<close> on a promise that
  resolves to \<^verbatim>\<open>true\<close> or \<^verbatim>\<open>false\<close> and never rejects) is the parameter
  \<open>isAvailable\<close>. \<open>scanRange\<close> is the \<^verbatim>\<open>for\<close> loop, with the set
  \<^verbatim>\<open>failedPorts\<close>; it yields \<open>None\<close> when the loop ends without a
  \<^verbatim>\<open>return\<close>.
\<close>

function scanRange :: "(int \<Rightarrow> bool) \<Rightarrow> int \<Rightarrow> int \<Rightarrow> int set \<Rightarrow> int option" where
  "scanRange isAvailable port endPort failedPorts =
     (if port \<le> endPort then
        (if port \<in> failedPorts then scanRange isAvailable (port + 1) endPort failedPorts
         else if isAvailable port then Some port
         else scanRange isAvailable (port + 1) endPort (insert port failedPorts))
      else None)"
  by pat_completeness auto
termination
  by (relation "measure (\<lambda>(a, port, endPort, f). nat (endPort + 1 - port))") auto

declare scanRange.simps [simp del]

text \<open>
  After the loop the function warns
  \<^verbatim>\<open>No available ports found in range ${startPort}-${endPort}, trying higher range\<close>
  and returns \<^verbatim>\<open>findAvailablePort(endPort + 1, endPort + 100)\<close>. Nothing bounds this
  recursion, so the function is partial: \<open>None\<close> is a search that never returns. The
  result carries the port and the ranges that were warned about, outermost first.
\<close>

partial_function (option) findAvailablePort ::
  "(int \<Rightarrow> bool) \<Rightarrow> int \<Rightarrow> int \<Rightarrow> (int \<times> (int \<times> int) list) option" where
  "findAvailablePort isAvailable startPort endPort =
     (case scanRange isAvailable startPort endPort {} of
        Some port \<Rightarrow> Some (port, [])
      | None \<Rightarrow>
          Option.bind (findAvailablePort isAvailable (endPort + 1) (endPort + 100))
            (\<lambda>(port, warned). Some (port, (startPort, endPort) # warned)))"

text \<open>The default of the second parameter: \<^verbatim>\<open>endPort = startPort + 100\<close>.\<close>

definition findAvailablePortFrom :: "(int \<Rightarrow> bool) \<Rightarrow> int \<Rightarrow> (int \<times> (int \<times> int) list) option" where
  "findAvailablePortFrom isAvailable startPort =
     findAvailablePort isAvailable startPort (startPort + 100)"

section \<open>The supervisor's state\<close>

text \<open>
  The persisted store (\<^verbatim>\<open>electron-store\<close>) maps keys to values; the file uses the
  keys \<^verbatim>\<open>graphCredentials\<close>, \<^verbatim>\<open>isLoggedIn\<close>, \<^verbatim>\<open>apiPort\<close> and
  \<^verbatim>\<open>nextJsPort\<close>.
\<close>

datatype jsval = VBool bool | VNum int | VCreds credentials

fun truthyVal :: "jsval option \<Rightarrow> bool" where
  "truthyVal None = False"
| "truthyVal (Some (VBool b)) = b"
| "truthyVal (Some (VNum n)) = (n \<noteq> 0)"
| "truthyVal (Some (VCreds c)) = True"

text \<open>
  The fields that \<^verbatim>\<open>startPythonApi\<close> reads from the stored value: those of a
  credentials object, and \<^verbatim>\<open>undefined\<close> thrice for a boolean or a number.
\<close>

fun credsOf :: "jsval option \<Rightarrow> credentials" where
  "credsOf (Some (VCreds c)) = c"
| "credsOf v = \<lparr>clientId = None, clientSecret = None, tenantId = None\<rparr>"

text \<open>A credential field is falsy when it is missing or the empty string.\<close>

fun falsy :: "string option \<Rightarrow> bool" where
  "falsy None = True"
| "falsy (Some s) = (s = [])"

text \<open>
  Each call of \<^verbatim>\<open>startPythonApi\<close> that reaches \<^verbatim>\<open>spawn\<close> creates a child
  process and a closure with its own \<^verbatim>\<open>apiStarted\<close> (a \<^verbatim>\<open>let\<close> that shadows the
  module's variable) and \<^verbatim>\<open>apiErrors\<close>. \<open>killed\<close> records that
  \<^verbatim>\<open>kill()\<close> was called on the process, \<open>closed\<close> that its \<^verbatim>\<open>close\<close> event was
  delivered. A process is identified by its position in \<open>workers\<close>.
\<close>

record worker =
  workerPort :: int
  apiStartedLocal :: bool
  apiErrors :: "string list"
  killed :: bool
  closed :: bool

definition newWorker :: "int \<Rightarrow> worker" where
  "newWorker port =
     \<lparr>workerPort = port, apiStartedLocal = False, apiErrors = [], killed = False, closed = False\<rparr>"

record state =
  store :: "string \<rightharpoonup> jsval"
  pythonProcess :: "nat option"
  workers :: "worker list"
  mainWindow :: bool
  sent :: "ipc list"
  apiStarted :: bool
  apiPort :: "int option"
  nextProcess :: bool
  verifications :: nat
  quit :: bool

definition killWorker :: "nat \<Rightarrow> state \<Rightarrow> state" where
  "killWorker pid s =
     (if pid < length (workers s)
      then s\<lparr>workers := (workers s)[pid := (workers s ! pid)\<lparr>killed := True\<rparr>]\<rparr>
      else s)"

text \<open>
  The worker processes that are running: created, not killed by the supervisor, and
  not yet closed.
\<close>

definition liveWorkers :: "state \<Rightarrow> nat list" where
  "liveWorkers s =
     filter (\<lambda>pid. \<not> killed (workers s ! pid) \<and> \<not> closed (workers s ! pid))
       [0 ..< length (workers s)]"

text \<open>
  The statement that opens \<^verbatim>\<open>startPythonApi\<close>, the \<^verbatim>\<open>login\<close> handler after
  validation, and the worker part of \<^verbatim>\<open>logout\<close>, \<^verbatim>\<open>before-quit\<close> and
  \<^verbatim>\<open>whenReady\<close>: \<^verbatim>\<open>if (pythonProcess) { pythonProcess.kill(); pythonProcess = null; }\<close>.
\<close>

definition killExisting :: "state \<Rightarrow> state" where
  "killExisting s =
     (case pythonProcess s of
        Some pid \<Rightarrow> (killWorker pid s)\<lparr>pythonProcess := None\<rparr>
      | None \<Rightarrow> s)"

section \<open>The worker's output and exit\<close>

text \<open>Decimal text of a number, as a template string prints an exit code.\<close>

fun showNat :: "nat \<Rightarrow> string" where
  "showNat n =
     (if n < 10 then [''0123456789'' ! n]
      else showNat (n div 10) @ [''0123456789'' ! (n mod 10)])"

declare showNat.simps [simp del]

definition showInt :: "int \<Rightarrow> string" where
  "showInt i = (if i < 0 then CHR ''-'' # showNat (nat (- i)) else showNat (nat i))"

fun codeString :: "int option \<Rightarrow> string" where
  "codeString None = ''null''"
| "codeString (Some c) = showInt c"

text \<open>The handler of \<^verbatim>\<open>pythonProcess.stdout.on('data')\<close>: the closure and the messages sent.\<close>

definition pythonStdout :: "bool \<Rightarrow> string \<Rightarrow> worker \<Rightarrow> worker \<times> ipc list" where
  "pythonStdout mw output w =
     (let started = (str_includes output ''Uvicorn running''
                      \<or> str_includes output ''Application startup complete'');
          w1 = (if started then w\<lparr>apiStartedLocal := True\<rparr> else w);
          m1 = (if started then sendIf mw (ApiReady (workerPort w)) [] else []);
          authErr = (str_includes output ''Authentication failed''
                      \<or> str_includes output ''Invalid client'')
      in if authErr
         then (w1\<lparr>apiErrors := apiErrors w1 @ [''Authentication failed: Invalid credentials'']\<rparr>,
               sendIf mw
                 (ApiError ''Authentication failed: Invalid client ID, client secret, or tenant ID.'') m1)
         else (w1, m1))"

text \<open>The handler of \<^verbatim>\<open>pythonProcess.stderr.on('data')\<close>.\<close>

definition pythonStderr :: "bool \<Rightarrow> string \<Rightarrow> worker \<Rightarrow> worker \<times> ipc list" where
  "pythonStderr mw output w =
     (if startsWith output ''INFO:'' then
        (if str_includes output ''Application startup complete''
              \<or> str_includes output ''Uvicorn running''
         then (w\<lparr>apiStartedLocal := True\<rparr>, sendIf mw (ApiReady (workerPort w)) [])
         else (w, []))
      else if \<not> str_includes output ''WARNING:'' then
        (w\<lparr>apiErrors := apiErrors w @ [output]\<rparr>,
         if str_includes output ''Error'' \<or> str_includes output ''Exception''
              \<or> str_includes output ''Failed''
         then sendIf mw (ApiError (''API Error: '' @ output)) []
         else [])
      else (w, []))"

text \<open>
  The handler of \<^verbatim>\<open>pythonProcess.on('close')\<close>: what it sends. It also sets the module's
  \<^verbatim>\<open>pythonProcess\<close> to \<^verbatim>\<open>null\<close>, whichever process closed (see \<open>deliver\<close>).
\<close>

definition pythonClose :: "bool \<Rightarrow> int option \<Rightarrow> worker \<Rightarrow> ipc list" where
  "pythonClose mw code w =
     (if \<not> apiStartedLocal w \<and> code \<noteq> Some 0 then
        (if apiErrors w \<noteq> []
         then sendIf mw (ApiError (''API failed to start: '' @ join '', '' (apiErrors w))) []
         else sendIf mw (ApiError (''API process exited with code '' @ codeString code)) [])
      else [])"

text \<open>
  The events of a worker process, delivered to the handlers that
  \<^verbatim>\<open>startPythonApi\<close> registered on it. \<open>WError\<close> is the \<^verbatim>\<open>error\<close> event with
  the error's message.
\<close>

datatype wevent = WStdout string | WStderr string | WClose "int option" | WError string

fun workerHandler :: "bool \<Rightarrow> wevent \<Rightarrow> worker \<Rightarrow> worker \<times> ipc list" where
  "workerHandler mw (WStdout output) w = pythonStdout mw output w"
| "workerHandler mw (WStderr output) w = pythonStderr mw output w"
| "workerHandler mw (WClose code) w = (w\<lparr>closed := True\<rparr>, pythonClose mw code w)"
| "workerHandler mw (WError msg) w = (w, sendIf mw (ApiError (''Failed to start API: '' @ msg)) [])"

text \<open>
  The handlers of \<^verbatim>\<open>close\<close> and \<^verbatim>\<open>error\<close> end with
  \<^verbatim>\<open>pythonProcess = null\<close>: an assignment to the module's variable, not to the
  process the handler was registered on.
\<close>

fun nullsHandle :: "wevent \<Rightarrow> bool" where
  "nullsHandle (WStdout output) = False"
| "nullsHandle (WStderr output) = False"
| "nullsHandle (WClose code) = True"
| "nullsHandle (WError msg) = True"

text \<open>An event of a process that was never created is no event.\<close>

definition deliver :: "nat \<Rightarrow> wevent \<Rightarrow> state \<Rightarrow> state" where
  "deliver pid ev s =
     (if pid < length (workers s) then
        (let r = workerHandler (mainWindow s) ev (workers s ! pid);
             s1 = s\<lparr>workers := (workers s)[pid := fst r], sent := sent s @ snd r\<rparr>
         in if nullsHandle ev then s1\<lparr>pythonProcess := None\<rparr> else s1)
      else s)"

text \<open>The closure of one worker after a sequence of its events.\<close>

definition workerRun :: "bool \<Rightarrow> worker \<Rightarrow> wevent list \<Rightarrow> worker" where
  "workerRun mw w evs = foldl (\<lambda>u ev. fst (workerHandler mw ev u)) w evs"

text \<open>
  What \<^verbatim>\<open>apiErrors\<close> holds after a sequence of events: one entry for each stderr
  chunk that neither starts with \<^verbatim>\<open>INFO:\<close> nor contains \<^verbatim>\<open>WARNING:\<close>, and a
  fixed entry for each stdout chunk with an authentication failure marker.
\<close>

fun errorEntry :: "wevent \<Rightarrow> string list" where
  "errorEntry (WStdout output) =
     (if str_includes output ''Authentication failed'' \<or> str_includes output ''Invalid client''
      then [''Authentication failed: Invalid credentials''] else [])"
| "errorEntry (WStderr output) =
     (if startsWith output ''INFO:'' then []
      else if str_includes output ''WARNING:'' then [] else [output])"
| "errorEntry (WClose code) = []"
| "errorEntry (WError msg) = []"

definition collectedErrors :: "wevent list \<Rightarrow> string list" where
  "collectedErrors evs = concat (map errorEntry evs)"

text \<open>
  The specification's wording of the same list, "the stderr lines previously
  classified as errors": the stderr chunks only.
\<close>

fun stderrErrorLine :: "wevent \<Rightarrow> string list" where
  "stderrErrorLine (WStderr output) = errorEntry (WStderr output)"
| "stderrErrorLine ev = []"

definition stderrErrorLines :: "wevent list \<Rightarrow> string list" where
  "stderrErrorLines evs = concat (map stderrErrorLine evs)"

section \<open>Starting the worker\<close>

text \<open>
  \<^verbatim>\<open>startPythonApi\<close>: kill the process the module refers to, locate the script, read
  the credentials from the store, spawn. Its \<^verbatim>\<open>catch\<close> turns the error of
  \<^verbatim>\<open>findApiPath\<close> or of \<^verbatim>\<open>spawn\<close> into an \<^verbatim>\<open>api-error\<close> and returns
  \<^verbatim>\<open>null\<close>.
\<close>

definition startPythonApi :: "env \<Rightarrow> int \<Rightarrow> state \<Rightarrow> state \<times> nat option" where
  "startPythonApi e port s0 =
     (let s1 = killExisting s0 in
      case findApiPath e (mainWindow s1) of
        (msgs, Inl err) \<Rightarrow>
          (s1\<lparr>sent := sendIf (mainWindow s1) (ApiError (''Failed to start API: '' @ err))
                         (sent s1 @ msgs)\<rparr>, None)
      | (msgs, Inr apiPath) \<Rightarrow>
          (if \<not> truthyVal (store s1 ''graphCredentials'')
           then (s1\<lparr>sent := sendIf (mainWindow s1)
                                (ApiError ''No credentials found. Please log in again.'')
                                (sent s1)\<rparr>, None)
           else
             (case spawnError e (credsOf (store s1 ''graphCredentials'')) of
                Some err \<Rightarrow>
                  (s1\<lparr>sent := sendIf (mainWindow s1) (ApiError (''Failed to start API: '' @ err))
                                 (sent s1)\<rparr>, None)
              | None \<Rightarrow>
                  (s1\<lparr>workers := workers s1 @ [newWorker port],
                      pythonProcess := Some (length (workers s1))\<rparr>,
                   Some (length (workers s1))))))"

section \<open>Login, logout and start-up\<close>

record loginResult =
  success :: bool
  message :: "string option"

text \<open>
  The handler of \<^verbatim>\<open>ipcMain.handle('login')\<close>. The verification process's events and
  the bind test are what the handler waits for; \<open>None\<close> is a handler that never
  returns (the verification promise stays pending, or the port search does not end).
  \<open>verifications\<close> counts the verification processes that were spawned.
\<close>

definition login ::
  "env \<Rightarrow> vevent list \<Rightarrow> (int \<Rightarrow> bool) \<Rightarrow> credentials \<Rightarrow> state \<Rightarrow> (loginResult \<times> state) option" where
  "login e vevs isAvailable creds s0 =
     (if falsy (clientId creds) \<or> falsy (clientSecret creds) \<or> falsy (tenantId creds)
      then Some (\<lparr>success = False, message = Some ''All fields are required''\<rparr>, s0)
      else
        (let s1 = killExisting s0;
             v = verifyCredentials e (mainWindow s1) creds vevs;
             s2 = s1\<lparr>sent := sent s1 @ verifySent v,
                     verifications := (case snd (findApiPath e (mainWindow s1)) of
                                         Inl err \<Rightarrow> verifications s1
                                       | Inr apiPath \<Rightarrow>
                                           (case spawnError e creds of
                                              Some err \<Rightarrow> verifications s1
                                            | None \<Rightarrow> Suc (verifications s1)))\<rparr>
         in case promise v of
              None \<Rightarrow> None
            | Some (Rejected err) \<Rightarrow>
                Some (\<lparr>success = False,
                       message = Some ''An error occurred during credential verification. Please try again.''\<rparr>,
                      s2)
            | Some (Resolved valid) \<Rightarrow>
                (if \<not> valid
                 then Some (\<lparr>success = False, message = Some ''Invalid credentials''\<rparr>, s2)
                 else
                   (let s3 = s2\<lparr>store := (store s2)(''graphCredentials'' \<mapsto> VCreds creds,
                                                      ''isLoggedIn'' \<mapsto> VBool True)\<rparr>
                    in case findAvailablePortFrom isAvailable 8000 of
                         None \<Rightarrow> None
                       | Some (portToUse, warned) \<Rightarrow>
                           (let s4 = fst (startPythonApi e portToUse s3)
                            in Some (\<lparr>success = True, message = None\<rparr>,
                                     s4\<lparr>store := (store s4)(''apiPort'' \<mapsto> VNum portToUse),
                                        apiPort := Some portToUse\<rparr>))))))"

text \<open>The handler of \<^verbatim>\<open>ipcMain.handle('logout')\<close>.\<close>

definition logout :: "env \<Rightarrow> state \<Rightarrow> loginResult \<times> state" where
  "logout e s0 =
     (let s1 = s0\<lparr>store := ((store s0)(''graphCredentials'' := None))(''isLoggedIn'' \<mapsto> VBool False)\<rparr>;
          s2 = (case pythonProcess s1 of
                  Some pid \<Rightarrow> (killWorker pid s1)\<lparr>pythonProcess := None, apiStarted := False,
                                                  apiPort := None\<rparr>
                | None \<Rightarrow> s1);
          s3 = (if development e \<and> nextProcess s2 then s2\<lparr>nextProcess := False\<rparr> else s2);
          s4 = s3\<lparr>sent := sendIf (mainWindow s3) ShowLogin (sent s3)\<rparr>
      in (\<lparr>success = True, message = None\<rparr>, s4))"

text \<open>
  The callback of \<^verbatim>\<open>app.whenReady()\<close>. In development it waits for
  \<^verbatim>\<open>startNextDevServer\<close>, whose stdout handler stores every port it detects under
  \<^verbatim>\<open>nextJsPort\<close>. Its promise resolves (\<open>DevReady\<close>), or the server process
  closes first (\<open>DevExited\<close>: the close handler sets \<^verbatim>\<open>nextProcess\<close> to \<^verbatim>\<open>null\<close>
  and, for an exit code other than 0, rejects), or the polling gives up and rejects
  with a message (\<open>DevPollFailed\<close>), or nothing of this has happened yet
  (\<open>DevPending\<close>); these are parameters. \<^verbatim>\<open>showErrorPage\<close> sends \<^verbatim>\<open>display-error\<close> to an
  existing window and quits the application otherwise. \<^verbatim>\<open>createWindow\<close> sets
  \<^verbatim>\<open>mainWindow\<close>; the renderer, and with it every \<^verbatim>\<open>login\<close> request, exists
  only afterwards.
\<close>

datatype devOutcome = DevReady | DevExited "int option" | DevPollFailed string | DevPending

definition forceReset :: "state \<Rightarrow> state" where
  "forceReset s =
     s\<lparr>store := ((store s)(''isLoggedIn'' \<mapsto> VBool False))(''graphCredentials'' := None)\<rparr>"

definition showErrorPage :: "string \<Rightarrow> state \<Rightarrow> state" where
  "showErrorPage errorMessage s =
     (if mainWindow s then s\<lparr>sent := sent s @ [DisplayError errorMessage]\<rparr>
      else s\<lparr>quit := True\<rparr>)"

definition createWindow :: "state \<Rightarrow> state" where
  "createWindow s = s\<lparr>mainWindow := True\<rparr>"

definition storePorts :: "int list \<Rightarrow> state \<Rightarrow> state" where
  "storePorts ports s =
     foldl (\<lambda>t detectedPort. t\<lparr>store := (store t)(''nextJsPort'' \<mapsto> VNum detectedPort)\<rparr>) s ports"

definition whenReady :: "env \<Rightarrow> int list \<Rightarrow> devOutcome \<Rightarrow> state \<Rightarrow> state" where
  "whenReady e ports outcome s0 =
     (let s1 = killExisting (forceReset s0) in
      if development e then
        (let s2 = storePorts ports (s1\<lparr>nextProcess := True\<rparr>) in
         case outcome of
           DevReady \<Rightarrow> createWindow s2
         | DevExited code \<Rightarrow>
             (if code \<noteq> Some 0
              then showErrorPage
                     (''Failed to start frontend server: Next.js process exited with code ''
                        @ codeString code)
                     (s2\<lparr>nextProcess := False\<rparr>)
              else s2\<lparr>nextProcess := False\<rparr>)
         | DevPollFailed msg \<Rightarrow> showErrorPage (''Failed to start frontend server: '' @ msg) s2
         | DevPending \<Rightarrow> s2)
      else createWindow s1)"

text \<open>
  While the promise is pending the timer is still armed and no handler has recorded a
  success or a failure: each handler that clears the timer or sets a flag also resolves.
\<close>

definition armed :: "verify \<Rightarrow> bool" where
  "armed v = (promise v = None \<longrightarrow>
      \<not> timeoutCleared v \<and> \<not> timeoutFired v \<and> \<not> authSuccess v \<and> \<not> authFailed v)"

text \<open>
  The module's variables when the file is loaded
  (\<^verbatim>\<open>pythonProcess = null\<close>, \<^verbatim>\<open>mainWindow = null\<close>, \<^verbatim>\<open>apiStarted = false\<close>,
  \<^verbatim>\<open>apiPort = 8000\<close>, \<^verbatim>\<open>nextProcess = null\<close>), over the store that the previous
  run left on disk.
\<close>

definition initialState :: "(string \<rightharpoonup> jsval) \<Rightarrow> state" where
  "initialState persisted =
     \<lparr>store = persisted, pythonProcess = None, workers = [], mainWindow = False, sent = [],
      apiStarted = False, apiPort = Some 8000, nextProcess = False, verifications = 0,
      quit = False\<rparr>"

text \<open>
  The discipline that the start paths aim at: every running worker is the one the
  module refers to.
\<close>

definition tracked :: "state \<Rightarrow> bool" where
  "tracked s = (set (liveWorkers s) \<subseteq> set_option (pythonProcess s))"

section \<open>Properties of credential verification\<close>

lemma promise_resolve:
  "promise (resolve b v) = (case promise v of None \<Rightarrow> Some (Resolved b) | Some r \<Rightarrow> Some r)"
  by (simp add: resolve_def split: option.splits)

lemma resolve_fields:
  "authOutput (resolve b v) = authOutput v" "authError (resolve b v) = authError v"
  "authSuccess (resolve b v) = authSuccess v" "authFailed (resolve b v) = authFailed v"
  "verifyKilled (resolve b v) = verifyKilled v" "timeoutCleared (resolve b v) = timeoutCleared v"
  "timeoutFired (resolve b v) = timeoutFired v" "verifySent (resolve b v) = verifySent v"
  by (simp_all add: resolve_def split: option.splits)

lemma verifySend_fields:
  "authOutput (verifySend mw m v) = authOutput v" "authError (verifySend mw m v) = authError v"
  "authSuccess (verifySend mw m v) = authSuccess v" "authFailed (verifySend mw m v) = authFailed v"
  "verifyKilled (verifySend mw m v) = verifyKilled v"
  "timeoutCleared (verifySend mw m v) = timeoutCleared v"
  "timeoutFired (verifySend mw m v) = timeoutFired v" "promise (verifySend mw m v) = promise v"
  "verifySent (verifySend mw m v) = sendIf mw m (verifySent v)"
  by (simp_all add: verifySend_def)

lemmas verify_simps = promise_resolve resolve_fields verifySend_fields

lemma settled_stays:
  "promise v = Some r \<Longrightarrow> promise (verifyStep mw v ev) = Some r"
  by (cases ev)
     (simp_all add: verifyStdout_def verifyStderr_def verifyClose_def verifyTimeout_def
        verify_simps Let_def)

lemma settled_stays_run:
  "promise v = Some r \<Longrightarrow> promise (verifyRun mw v evs) = Some r"
  unfolding verifyRun_def
  by (induction evs arbitrary: v) (simp_all add: settled_stays)

lemma armed_step: "armed v \<Longrightarrow> armed (verifyStep mw v ev)"
  by (cases ev)
     (auto simp add: armed_def verifyStdout_def verifyStderr_def verifyClose_def verifyTimeout_def
        verify_simps Let_def split: option.splits if_splits)

lemma armed_run: "armed v \<Longrightarrow> armed (verifyRun mw v evs)"
  unfolding verifyRun_def
  by (induction evs arbitrary: v) (simp_all add: armed_step)






lemma verifyRun_Nil: "verifyRun mw v [] = v"
  by (simp add: verifyRun_def)

lemma armed_start: "armed (verifyInit\<lparr>verifySent := msgs\<rparr>)"
  by (simp add: armed_def verifyInit_def)


lemma verifyCredentials_found:
  "snd (findApiPath e mw) = Inr apiPath \<Longrightarrow> spawnError e creds = None \<Longrightarrow>
   verifyCredentials e mw creds evs =
     verifyRun mw (verifyInit\<lparr>verifySent := fst (findApiPath e mw)\<rparr>) evs"
  by (cases "findApiPath e mw") (simp add: verifyCredentials_def)







text \<open>
  Claim C3, as amended. While the promise is pending, a stdout chunk that contains
  \<^verbatim>\<open>Authentication successful\<close> or \<^verbatim>\<open>Token acquired successfully\<close>, and a stderr
  chunk that contains both \<^verbatim>\<open>INFO:\<close> and \<^verbatim>\<open>access token\<close>, resolve the promise
  with \<^verbatim>\<open>true\<close> at once, kill the verification process and clear the timer; nothing is
  reported to the renderer, whatever else the chunk contains, and no later output, exit
  or timeout changes the result.
\<close>

theorem success_marker_resolves_true:
  assumes "promise v = None"
  shows "(str_includes output ''Authentication successful''
            \<or> str_includes output ''Token acquired successfully''
          \<longrightarrow> promise (verifyStep mw v (Stdout output)) = Some (Resolved True)
              \<and> verifyKilled (verifyStep mw v (Stdout output))
              \<and> timeoutCleared (verifyStep mw v (Stdout output))
              \<and> verifySent (verifyStep mw v (Stdout output)) = verifySent v
              \<and> promise (verifyRun mw (verifyStep mw v (Stdout output)) evs) = Some (Resolved True))
       \<and> (str_includes output ''INFO:'' \<and> str_includes output ''access token''
          \<longrightarrow> promise (verifyStep mw v (Stderr output)) = Some (Resolved True)
              \<and> verifyKilled (verifyStep mw v (Stderr output))
              \<and> timeoutCleared (verifyStep mw v (Stderr output))
              \<and> verifySent (verifyStep mw v (Stderr output)) = verifySent v
              \<and> promise (verifyRun mw (verifyStep mw v (Stderr output)) evs) = Some (Resolved True))"
proof -
  have later: "promise u = Some (Resolved True) \<Longrightarrow> promise (verifyRun mw u evs) = Some (Resolved True)"
    for u by (rule settled_stays_run)
  have out: "str_includes output ''Authentication successful''
        \<or> str_includes output ''Token acquired successfully'' \<Longrightarrow>
      promise (verifyStep mw v (Stdout output)) = Some (Resolved True)
      \<and> verifyKilled (verifyStep mw v (Stdout output))
      \<and> timeoutCleared (verifyStep mw v (Stdout output))
      \<and> verifySent (verifyStep mw v (Stdout output)) = verifySent v"
    using assms by (simp add: verifyStdout_def verify_simps)
  have err: "str_includes output ''INFO:'' \<and> str_includes output ''access token'' \<Longrightarrow>
      promise (verifyStep mw v (Stderr output)) = Some (Resolved True)
      \<and> verifyKilled (verifyStep mw v (Stderr output))
      \<and> timeoutCleared (verifyStep mw v (Stderr output))
      \<and> verifySent (verifyStep mw v (Stderr output)) = verifySent v"
    using assms by (simp add: verifyStderr_def verify_simps)
  from out err later show ?thesis
    by blast
qed

theorem success_marker_witness:
  "promise verifyInit = None
   \<and> str_includes ''Authentication successful for tenant'' ''Authentication successful''
   \<and> promise (verifyStep True verifyInit (Stdout ''Authentication successful for tenant''))
       = Some (Resolved True)
   \<and> verifyKilled (verifyStep True verifyInit (Stdout ''Authentication successful for tenant''))
   \<and> str_includes ''INFO: got access token; AADSTS'' ''INFO:''
   \<and> str_includes ''INFO: got access token; AADSTS'' ''access token''
   \<and> promise (verifyStep True verifyInit (Stderr ''INFO: got access token; AADSTS''))
       = Some (Resolved True)
   \<and> verifySent (verifyStep True verifyInit (Stderr ''INFO: got access token; AADSTS'')) = []"
proof -
  have pending: "promise verifyInit = None"
    by (simp add: verifyInit_def)
  have a: "str_includes ''Authentication successful for tenant'' ''Authentication successful''"
    by simp
  have b: "str_includes ''INFO: got access token; AADSTS'' ''INFO:''"
    by simp
  have c: "str_includes ''INFO: got access token; AADSTS'' ''access token''"
    by simp
  have d: "verifySent verifyInit = []"
    by (simp add: verifyInit_def)
  from success_marker_resolves_true [OF pending, of "''Authentication successful for tenant''" True]
    success_marker_resolves_true [OF pending, of "''INFO: got access token; AADSTS''" True]
    pending a b c d
  show ?thesis by simp
qed

text \<open>
  Claim C3 as stated fails on stderr: the stderr handler does not look for
  \<^verbatim>\<open>Authentication successful\<close>. Such a chunk leaves the promise pending and the
  process running, and an exit with code 1 then resolves \<^verbatim>\<open>false\<close>.
\<close>

theorem stderr_success_phrase_is_ignored:
  "promise (verifyCredentials \<lparr>possibleApiPaths = [''api/api.py''], existsSync = (\<lambda>p. True),
       development = False,
       spawnError = (\<lambda>c. None)\<rparr> True
       \<lparr>clientId = Some ''id'', clientSecret = Some ''secret'', tenantId = Some ''tenant''\<rparr>
       [Stderr ''Authentication successful'']) = None
   \<and> \<not> verifyKilled (verifyCredentials \<lparr>possibleApiPaths = [''api/api.py''],
       existsSync = (\<lambda>p. True), development = False,
       spawnError = (\<lambda>c. None)\<rparr> True
       \<lparr>clientId = Some ''id'', clientSecret = Some ''secret'', tenantId = Some ''tenant''\<rparr>
       [Stderr ''Authentication successful''])
   \<and> promise (verifyCredentials \<lparr>possibleApiPaths = [''api/api.py''], existsSync = (\<lambda>p. True),
       development = False,
       spawnError = (\<lambda>c. None)\<rparr> True
       \<lparr>clientId = Some ''id'', clientSecret = Some ''secret'', tenantId = Some ''tenant''\<rparr>
       [Stderr ''Authentication successful'', Close (Some 1)]) = Some (Resolved False)"
  by (simp add: verifyCredentials_def findApiPath_def verifyInit_def verifyRun_def
      verifyStderr_def verifyClose_def successIndicators_def verify_simps sendIf_def)

lemma pending_found:
  "promise (verifyCredentials e mw creds evs) = None \<Longrightarrow>
   (\<exists>p. snd (findApiPath e mw) = Inr p) \<and> spawnError e creds = None"
  by (cases "findApiPath e mw")
     (auto simp add: verifyCredentials_def split: sum.splits option.splits)

lemma verifyCredentials_snoc:
  "snd (findApiPath e mw) = Inr p \<Longrightarrow> spawnError e creds = None \<Longrightarrow>
   verifyCredentials e mw creds (evs @ [x]) = verifyStep mw (verifyCredentials e mw creds evs) x"
  by (simp add: verifyCredentials_found verifyRun_def)

lemma armed_verifyCredentials:
  "snd (findApiPath e mw) = Inr p \<Longrightarrow> spawnError e creds = None \<Longrightarrow>
   armed (verifyCredentials e mw creds evs)"
  by (simp add: verifyCredentials_found armed_run armed_start)

text \<open>The two buffers hold what the chunks of each stream add up to.\<close>

lemma buffers_step:
  "authOutput (verifyStep mw v ev) = authOutput v @ stdoutChunk ev"
  "authError (verifyStep mw v ev) = authError v @ stderrChunk ev"
  by (cases ev; simp add: verifyStdout_def verifyStderr_def verifyClose_def verifyTimeout_def
        verify_simps Let_def)+

lemma buffers_run:
  "authOutput (verifyRun mw v evs) = authOutput v @ stdoutText evs"
  "authError (verifyRun mw v evs) = authError v @ stderrText evs"
  unfolding verifyRun_def stdoutText_def stderrText_def
  by (induction evs arbitrary: v) (simp_all add: buffers_step)

lemma buffers_verifyCredentials:
  assumes "snd (findApiPath e mw) = Inr p" and "spawnError e creds = None"
  shows "authOutput (verifyCredentials e mw creds evs) = stdoutText evs"
    and "authError (verifyCredentials e mw creds evs) = stderrText evs"
  by (simp_all add: verifyCredentials_found [OF assms] buffers_run verifyInit_def)

text \<open>
  Claim C6, as amended. Let the promise be pending after the events \<open>evs\<close> (no
  handler has seen a marker). Then the timer's callback, a close with a \<^verbatim>\<open>null\<close>
  exit code (the process was killed) and a close with a nonzero exit code each resolve
  the promise with the result of scanning the output collected so far: the stdout text
  for \<^verbatim>\<open>Authentication successful\<close> (the timer and the \<^verbatim>\<open>null\<close> code also for
  \<^verbatim>\<open>Token acquired successfully\<close>, the two closes also for \<^verbatim>\<open>Token\<close> together with
  \<^verbatim>\<open>success\<close>) and the stderr text for \<^verbatim>\<open>access token\<close>. When the scan finds
  nothing the promise resolves \<^verbatim>\<open>false\<close> and, if there is a window, one
  \<^verbatim>\<open>api-error\<close> is sent: the timed-out message (after killing the process), the
  interrupted message, and after a nonzero exit the verification-failed message, or the
  authentication-failed message when the collected output holds
  \<^verbatim>\<open>Authentication failed\<close>.
\<close>

theorem ambiguous_exit_scans_buffers:
  assumes pending: "promise (verifyCredentials e mw creds evs) = None"
  shows "promise (verifyCredentials e mw creds (evs @ [Timeout]))
           = Some (Resolved (str_includes (stdoutText evs) ''Authentication successful''
                              \<or> str_includes (stdoutText evs) ''Token acquired successfully''
                              \<or> str_includes (stderrText evs) ''access token''))
       \<and> (\<not> (str_includes (stdoutText evs) ''Authentication successful''
               \<or> str_includes (stdoutText evs) ''Token acquired successfully''
               \<or> str_includes (stderrText evs) ''access token'') \<longrightarrow>
            verifyKilled (verifyCredentials e mw creds (evs @ [Timeout]))
            \<and> verifySent (verifyCredentials e mw creds (evs @ [Timeout]))
                = verifySent (verifyCredentials e mw creds evs)
                  @ (if mw then [ApiError ''Credential verification timed out. Please check your network connection and try again.''] else []))
       \<and> promise (verifyCredentials e mw creds (evs @ [Close None]))
           = Some (Resolved (str_includes (stdoutText evs) ''Authentication successful''
                              \<or> str_includes (stdoutText evs) ''Token acquired successfully''
                              \<or> str_includes (stderrText evs) ''access token''
                              \<or> (str_includes (stdoutText evs) ''Token''
                                   \<and> str_includes (stdoutText evs) ''success'')))
       \<and> (\<not> (str_includes (stdoutText evs) ''Authentication successful''
               \<or> str_includes (stdoutText evs) ''Token acquired successfully''
               \<or> str_includes (stderrText evs) ''access token''
               \<or> (str_includes (stdoutText evs) ''Token''
                    \<and> str_includes (stdoutText evs) ''success'')) \<longrightarrow>
            verifySent (verifyCredentials e mw creds (evs @ [Close None]))
              = verifySent (verifyCredentials e mw creds evs)
                @ (if mw then [ApiError ''Credential verification interrupted. Please try again.''] else []))
       \<and> (code \<noteq> 0 \<longrightarrow>
            promise (verifyCredentials e mw creds (evs @ [Close (Some code)]))
              = Some (Resolved (str_includes (stdoutText evs) ''Authentication successful''
                                 \<or> str_includes (stderrText evs) ''access token''
                                 \<or> (str_includes (stdoutText evs) ''Token''
                                      \<and> str_includes (stdoutText evs) ''success''))))
       \<and> (code \<noteq> 0
            \<and> \<not> (str_includes (stdoutText evs) ''Authentication successful''
                   \<or> str_includes (stderrText evs) ''access token''
                   \<or> (str_includes (stdoutText evs) ''Token''
                        \<and> str_includes (stdoutText evs) ''success'')) \<longrightarrow>
            verifySent (verifyCredentials e mw creds (evs @ [Close (Some code)]))
              = verifySent (verifyCredentials e mw creds evs)
                @ (if mw
                   then [ApiError
                           (if str_includes (stdoutText evs) ''Authentication failed''
                                 \<or> str_includes (stderrText evs) ''Authentication failed''
                            then ''Authentication failed: Invalid client ID, client secret, or tenant ID.''
                            else ''Credential verification failed. Please check your credentials and try again.'')]
                   else []))"
proof -
  define v where "v = verifyCredentials e mw creds evs"
  from pending obtain p where found: "snd (findApiPath e mw) = Inr p"
    and spawned: "spawnError e creds = None"
    using pending_found by blast
  have "armed v"
    unfolding v_def by (rule armed_verifyCredentials [OF found spawned])
  moreover have pending: "promise v = None"
    unfolding v_def by (rule pending)
  ultimately have flags: "\<not> timeoutCleared v" "\<not> timeoutFired v" "\<not> authSuccess v"
    "\<not> authFailed v"
    by (simp_all add: armed_def)
  have step: "verifyCredentials e mw creds (evs @ [x]) = verifyStep mw v x" for x
    unfolding v_def by (rule verifyCredentials_snoc [OF found spawned])
  have buf: "authOutput v = stdoutText evs" "authError v = stderrText evs"
    unfolding v_def by (rule buffers_verifyCredentials [OF found spawned])+
  have t1: "promise (verifyStep mw v Timeout)
      = Some (Resolved (str_includes (stdoutText evs) ''Authentication successful''
                         \<or> str_includes (stdoutText evs) ''Token acquired successfully''
                         \<or> str_includes (stderrText evs) ''access token''))"
    using pending flags
    by (simp add: verifyTimeout_def timeoutSuccess_def verify_simps buf)
  have t2: "\<not> (str_includes (stdoutText evs) ''Authentication successful''
               \<or> str_includes (stdoutText evs) ''Token acquired successfully''
               \<or> str_includes (stderrText evs) ''access token'') \<Longrightarrow>
      verifyKilled (verifyStep mw v Timeout)
      \<and> verifySent (verifyStep mw v Timeout)
          = verifySent v @ (if mw then [ApiError ''Credential verification timed out. Please check your network connection and try again.''] else [])"
    using pending flags
    by (simp add: verifyTimeout_def timeoutSuccess_def verify_simps sendIf_def buf)
  have k1: "promise (verifyStep mw v (Close None))
      = Some (Resolved (str_includes (stdoutText evs) ''Authentication successful''
                         \<or> str_includes (stdoutText evs) ''Token acquired successfully''
                         \<or> str_includes (stderrText evs) ''access token''
                         \<or> (str_includes (stdoutText evs) ''Token''
                              \<and> str_includes (stdoutText evs) ''success'')))"
    using pending flags
    by (auto simp add: verifyClose_def successIndicators_def verify_simps buf)
  have k2: "\<not> (str_includes (stdoutText evs) ''Authentication successful''
               \<or> str_includes (stdoutText evs) ''Token acquired successfully''
               \<or> str_includes (stderrText evs) ''access token''
               \<or> (str_includes (stdoutText evs) ''Token''
                    \<and> str_includes (stdoutText evs) ''success'')) \<Longrightarrow>
      verifySent (verifyStep mw v (Close None))
        = verifySent v @ (if mw then [ApiError ''Credential verification interrupted. Please try again.''] else [])"
    using pending flags
    by (auto simp add: verifyClose_def successIndicators_def verify_simps sendIf_def buf)
  have n1: "code \<noteq> 0 \<Longrightarrow>
      promise (verifyStep mw v (Close (Some code)))
        = Some (Resolved (str_includes (stdoutText evs) ''Authentication successful''
                           \<or> str_includes (stderrText evs) ''access token''
                           \<or> (str_includes (stdoutText evs) ''Token''
                                \<and> str_includes (stdoutText evs) ''success'')))"
    using pending flags
    by (simp add: verifyClose_def successIndicators_def verify_simps buf)
  have n2: "code \<noteq> 0 \<Longrightarrow>
      \<not> (str_includes (stdoutText evs) ''Authentication successful''
          \<or> str_includes (stderrText evs) ''access token''
          \<or> (str_includes (stdoutText evs) ''Token''
               \<and> str_includes (stdoutText evs) ''success'')) \<Longrightarrow>
      verifySent (verifyStep mw v (Close (Some code)))
        = verifySent v
          @ (if mw
             then [ApiError
                     (if str_includes (stdoutText evs) ''Authentication failed''
                           \<or> str_includes (stderrText evs) ''Authentication failed''
                      then ''Authentication failed: Invalid client ID, client secret, or tenant ID.''
                      else ''Credential verification failed. Please check your credentials and try again.'')]
             else [])"
    using pending flags
    by (auto simp add: verifyClose_def successIndicators_def verify_simps sendIf_def buf)
  have same: "verifyCredentials e mw creds evs = v"
    by (simp add: v_def)
  show ?thesis
    unfolding step same using t1 t2 k1 k2 n1 n2 by blast
qed


theorem ambiguous_exit_witness:
  "promise (verifyCredentials \<lparr>possibleApiPaths = [''api/api.py''], existsSync = (\<lambda>p. True),
       development = False, spawnError = nullByteCheck\<rparr> True
       \<lparr>clientId = Some ''id'', clientSecret = Some ''secret'', tenantId = Some ''tenant''\<rparr>
       [Stdout ''Token acq'', Stdout ''uired'']) = None
   \<and> promise (verifyCredentials \<lparr>possibleApiPaths = [''api/api.py''], existsSync = (\<lambda>p. True),
       development = False, spawnError = nullByteCheck\<rparr> True
       \<lparr>clientId = Some ''id'', clientSecret = Some ''secret'', tenantId = Some ''tenant''\<rparr>
       ([Stdout ''Token acq'', Stdout ''uired''] @ [Timeout])) = Some (Resolved False)
   \<and> verifySent (verifyCredentials \<lparr>possibleApiPaths = [''api/api.py''], existsSync = (\<lambda>p. True),
       development = False, spawnError = nullByteCheck\<rparr> True
       \<lparr>clientId = Some ''id'', clientSecret = Some ''secret'', tenantId = Some ''tenant''\<rparr>
       ([Stdout ''Token acq'', Stdout ''uired''] @ [Timeout]))
       = [ApiError ''Credential verification timed out. Please check your network connection and try again.'']
   \<and> promise (verifyCredentials \<lparr>possibleApiPaths = [''api/api.py''], existsSync = (\<lambda>p. True),
       development = False, spawnError = nullByteCheck\<rparr> True
       \<lparr>clientId = Some ''id'', clientSecret = Some ''secret'', tenantId = Some ''tenant''\<rparr>
       ([Stdout ''Token acq'', Stdout ''uired''] @ [Close None])) = Some (Resolved False)
   \<and> verifySent (verifyCredentials \<lparr>possibleApiPaths = [''api/api.py''], existsSync = (\<lambda>p. True),
       development = False, spawnError = nullByteCheck\<rparr> True
       \<lparr>clientId = Some ''id'', clientSecret = Some ''secret'', tenantId = Some ''tenant''\<rparr>
       ([Stdout ''Token acq'', Stdout ''uired''] @ [Close (Some 1)]))
       = [ApiError ''Credential verification failed. Please check your credentials and try again.'']
   \<and> promise (verifyCredentials \<lparr>possibleApiPaths = [''api/api.py''], existsSync = (\<lambda>p. True),
       development = False, spawnError = nullByteCheck\<rparr> True
       \<lparr>clientId = Some ''id'', clientSecret = Some ''secret'', tenantId = Some ''tenant''\<rparr>
       [Stdout ''Token acq'', Stdout ''uired successfully'']) = None
   \<and> promise (verifyCredentials \<lparr>possibleApiPaths = [''api/api.py''], existsSync = (\<lambda>p. True),
       development = False, spawnError = nullByteCheck\<rparr> True
       \<lparr>clientId = Some ''id'', clientSecret = Some ''secret'', tenantId = Some ''tenant''\<rparr>
       ([Stdout ''Token acq'', Stdout ''uired successfully''] @ [Timeout])) = Some (Resolved True)
   \<and> promise (verifyCredentials \<lparr>possibleApiPaths = [''api/api.py''], existsSync = (\<lambda>p. True),
       development = False, spawnError = nullByteCheck\<rparr> True
       \<lparr>clientId = Some ''id'', clientSecret = Some ''secret'', tenantId = Some ''tenant''\<rparr>
       ([Stdout ''Token acq'', Stdout ''uired successfully''] @ [Close (Some 1)]))
       = Some (Resolved True)"
proof -
  let ?e = "\<lparr>possibleApiPaths = [''api/api.py''], existsSync = (\<lambda>p. True),
       development = False, spawnError = nullByteCheck\<rparr>"
  let ?c = "\<lparr>clientId = Some ''id'', clientSecret = Some ''secret'', tenantId = Some ''tenant''\<rparr>"
  have found: "snd (findApiPath ?e True) = Inr ''api/api.py''"
    by (simp add: findApiPath_def)
  have spawned: "spawnError ?e ?c = None"
    by (simp add: nullByteCheck_def)
  note run = verifyCredentials_found [OF found spawned]
  have quiet: "promise (verifyCredentials ?e True ?c [Stdout ''Token acq'', Stdout ''uired'']) = None"
    "verifySent (verifyCredentials ?e True ?c [Stdout ''Token acq'', Stdout ''uired'']) = []"
    by (simp_all add: run verifyRun_def verifyStdout_def verifyInit_def findApiPath_def)
  have split: "promise (verifyCredentials ?e True ?c
      [Stdout ''Token acq'', Stdout ''uired successfully'']) = None"
    by (simp add: run verifyRun_def verifyStdout_def verifyInit_def)
  have texts: "stdoutText [Stdout ''Token acq'', Stdout ''uired''] = ''Token acquired''"
    "stderrText [Stdout ''Token acq'', Stdout ''uired''] = []"
    "stdoutText [Stdout ''Token acq'', Stdout ''uired successfully''] = ''Token acquired successfully''"
    "stderrText [Stdout ''Token acq'', Stdout ''uired successfully''] = []"
    by (simp_all add: stdoutText_def stderrText_def)
  have one: "(1::int) \<noteq> 0" by simp
  from ambiguous_exit_scans_buffers [OF quiet(1), of 1]
    ambiguous_exit_scans_buffers [OF split, of 1]
    quiet split
  show ?thesis
    by (simp add: texts)
qed

text \<open>
  Claim C6 as stated fails: the error after an ambiguous exit is not always the generic
  one. A stdout chunk with \<^verbatim>\<open>Authentication failed\<close> is no marker to the stdout
  handler and leaves the promise pending; the exit with code 1 then finds no success
  phrase, resolves \<^verbatim>\<open>false\<close> and sends the authentication-failed message.
\<close>

theorem buffered_failure_phrase_is_reported_as_authentication_failure:
  "promise (verifyCredentials \<lparr>possibleApiPaths = [''api/api.py''], existsSync = (\<lambda>p. True),
       development = False, spawnError = nullByteCheck\<rparr> True
       \<lparr>clientId = Some ''id'', clientSecret = Some ''secret'', tenantId = Some ''tenant''\<rparr>
       [Stdout ''Authentication failed'']) = None
   \<and> promise (verifyCredentials \<lparr>possibleApiPaths = [''api/api.py''], existsSync = (\<lambda>p. True),
       development = False, spawnError = nullByteCheck\<rparr> True
       \<lparr>clientId = Some ''id'', clientSecret = Some ''secret'', tenantId = Some ''tenant''\<rparr>
       [Stdout ''Authentication failed'', Close (Some 1)]) = Some (Resolved False)
   \<and> verifySent (verifyCredentials \<lparr>possibleApiPaths = [''api/api.py''], existsSync = (\<lambda>p. True),
       development = False, spawnError = nullByteCheck\<rparr> True
       \<lparr>clientId = Some ''id'', clientSecret = Some ''secret'', tenantId = Some ''tenant''\<rparr>
       [Stdout ''Authentication failed'', Close (Some 1)])
       = [ApiError ''Authentication failed: Invalid client ID, client secret, or tenant ID.'']"
  by (simp add: verifyCredentials_def findApiPath_def nullByteCheck_def verifyInit_def verifyRun_def
      verifyStdout_def verifyClose_def successIndicators_def verify_simps sendIf_def)

section \<open>Properties of the port allocator\<close>

lemma scanRange_exhausted:
  "\<forall>p. port \<le> p \<and> p \<le> endPort \<longrightarrow> \<not> isAvailable p \<Longrightarrow>
   scanRange isAvailable port endPort failedPorts = None"
proof (induction isAvailable port endPort failedPorts rule: scanRange.induct)
  case (1 isAvailable port endPort failedPorts)
  show ?case
  proof (cases "port \<le> endPort")
    case True
    with "1.prems" have no: "\<not> isAvailable port" by simp
    from "1.prems" have rest: "\<forall>p. port + 1 \<le> p \<and> p \<le> endPort \<longrightarrow> \<not> isAvailable p"
      by simp
    show ?thesis
    proof (cases "port \<in> failedPorts")
      case True
      with \<open>port \<le> endPort\<close> "1.IH"(1) rest show ?thesis
        by (subst scanRange.simps) simp
    next
      case False
      with \<open>port \<le> endPort\<close> no "1.IH"(2) rest show ?thesis
        by (subst scanRange.simps) simp
    qed
  next
    case False
    then show ?thesis by (subst scanRange.simps) simp
  qed
qed

lemma scanRange_first:
  "\<lbrakk>port \<le> q; q \<le> endPort; isAvailable q;
    \<forall>p. port \<le> p \<and> p < q \<longrightarrow> \<not> isAvailable p; \<forall>x\<in>failedPorts. x < port\<rbrakk> \<Longrightarrow>
   scanRange isAvailable port endPort failedPorts = Some q"
proof (induction isAvailable port endPort failedPorts rule: scanRange.induct)
  case (1 isAvailable port endPort failedPorts)
  from "1.prems" have le: "port \<le> endPort" and fresh: "port \<notin> failedPorts"
    by auto
  show ?case
  proof (cases "port = q")
    case True
    with "1.prems" le fresh show ?thesis
      by (subst scanRange.simps) simp
  next
    case False
    with "1.prems" have lt: "port < q" and no: "\<not> isAvailable port"
      by auto
    have "scanRange isAvailable (port + 1) endPort (insert port failedPorts) = Some q"
      using "1.prems" lt le fresh no
      by (intro "1.IH"(2)) auto
    with le fresh no show ?thesis
      by (subst scanRange.simps) simp
  qed
qed

text \<open>
  Claim C2, as amended. When every port of \<open>startPort .. endPort\<close> fails the bind
  test, \<^verbatim>\<open>findAvailablePort\<close> warns about the range and returns what the search of
  \<open>endPort + 1 .. endPort + 100\<close> returns. No branch of the function throws or
  rejects: the search returns a port or goes on.
\<close>

theorem exhausted_range_recurses:
  assumes "\<forall>p. startPort \<le> p \<and> p \<le> endPort \<longrightarrow> \<not> isAvailable p"
  shows "findAvailablePort isAvailable startPort endPort =
           Option.bind (findAvailablePort isAvailable (endPort + 1) (endPort + 100))
             (\<lambda>(port, warned). Some (port, (startPort, endPort) # warned))"
  by (subst findAvailablePort.simps) (simp add: scanRange_exhausted [OF assms])

lemma findAvailablePort_found:
  "\<lbrakk>startPort \<le> q; q \<le> endPort; isAvailable q;
    \<forall>p. startPort \<le> p \<and> p < q \<longrightarrow> \<not> isAvailable p\<rbrakk> \<Longrightarrow>
   findAvailablePort isAvailable startPort endPort = Some (q, [])"
  by (subst findAvailablePort.simps) (simp add: scanRange_first)

theorem exhausted_range_witness:
  "(\<nexists>p. (0::int) \<le> p \<and> p \<le> 100 \<and> (\<lambda>q. q = 150) p)
   \<and> findAvailablePort (\<lambda>q. q = 150) 0 100 = Some (150, [(0, 100)])
   \<and> findAvailablePort (\<lambda>q. q = 150) (100 + 1) (100 + 100) = Some (150, [])"
proof -
  have none: "\<forall>p. (0::int) \<le> p \<and> p \<le> 100 \<longrightarrow> \<not> (\<lambda>q. q = 150) p"
    by simp
  have next_range: "findAvailablePort (\<lambda>q. q = 150) (100 + 1) (100 + 100) = Some (150, [])"
    by (rule findAvailablePort_found) simp_all
  from exhausted_range_recurses [OF none] next_range none show ?thesis
    by simp
qed

text \<open>
  Claim C2 as stated fails: the next range does not end at \<open>endPort + 101\<close>. With
  port 201 the only free one, the search from \<open>0 .. 100\<close> warns about \<open>0 .. 100\<close> and
  then about \<open>101 .. 200\<close> before it finds 201; a search that went on with
  \<open>101 .. 201\<close> would have found it in its second range.
\<close>

theorem next_range_is_one_port_shorter:
  "findAvailablePort (\<lambda>q. q = 201) 0 100 = Some (201, [(0, 100), (101, 200)])
   \<and> findAvailablePort (\<lambda>q. q = 201) 0 100 \<noteq>
       Option.bind (findAvailablePort (\<lambda>q. q = 201) (100 + 1) (100 + 101))
         (\<lambda>(port, warned). Some (port, (0, 100) # warned))"
proof -
  have a: "findAvailablePort (\<lambda>q. q = 201) 201 300 = Some (201, [])"
    by (rule findAvailablePort_found) simp_all
  have b: "findAvailablePort (\<lambda>q. q = 201) 101 200 = Some (201, [(101, 200)])"
    by (subst findAvailablePort.simps) (simp add: scanRange_exhausted a)
  have c: "findAvailablePort (\<lambda>q. q = 201) 0 100 = Some (201, [(0, 100), (101, 200)])"
    by (subst findAvailablePort.simps) (simp add: scanRange_exhausted b)
  have d: "findAvailablePort (\<lambda>q. q = 201) (100 + 1) (100 + 101) = Some (201, [])"
    by (rule findAvailablePort_found) simp_all
  from c d show ?thesis by simp
qed

lemma scanRange_sound:
  "scanRange isAvailable port endPort failedPorts = Some q \<Longrightarrow>
   isAvailable q \<and> port \<le> q \<and> q \<le> endPort"
proof (induction isAvailable port endPort failedPorts rule: scanRange.induct)
  case (1 isAvailable port endPort failedPorts)
  from "1.prems" have le: "port \<le> endPort"
    by (subst (asm) scanRange.simps) (simp split: if_splits)
  show ?case
  proof (cases "port \<in> failedPorts")
    case True
    with le "1.prems" have "scanRange isAvailable (port + 1) endPort failedPorts = Some q"
      by (subst (asm) scanRange.simps) simp
    with "1.IH"(1) [OF le True] show ?thesis by simp
  next
    case False
    show ?thesis
    proof (cases "isAvailable port")
      case True
      with le False "1.prems" have "q = port"
        by (subst (asm) scanRange.simps) simp
      with True le show ?thesis by simp
    next
      case no: False
      with le False "1.prems" have
        "scanRange isAvailable (port + 1) endPort (insert port failedPorts) = Some q"
        by (subst (asm) scanRange.simps) simp
      with "1.IH"(2) [OF le False no] show ?thesis by simp
    qed
  qed
qed

text \<open>A port that the search returns passed the bind test.\<close>

lemma findAvailablePort_sound:
  assumes "findAvailablePort isAvailable startPort endPort = Some r"
  shows "isAvailable (fst r)"
  using assms
proof (induction rule: findAvailablePort.raw_induct [rotated 1, consumes 1])
  case (1 search isAvailable startPort endPort r)
  show ?case
  proof (cases "scanRange isAvailable startPort endPort {}")
    case None
    with 1(2) obtain r' where
      "search isAvailable (endPort + 1) (endPort + 100) = Some r'" and "fst r = fst r'"
      by (auto simp add: bind_eq_Some_conv split: prod.splits)
    with 1(1) show ?thesis by simp
  next
    case (Some port)
    with 1(2) have "fst r = port" by auto
    with Some scanRange_sound show ?thesis by blast
  qed
qed

text \<open>
  When no port at all passes the bind test the search goes from range to range and
  never returns; it does not fail.
\<close>

lemma findAvailablePort_never_returns:
  "\<forall>p. \<not> isAvailable p \<Longrightarrow> findAvailablePort isAvailable startPort endPort = None"
  using findAvailablePort_sound [of isAvailable startPort endPort]
  by (cases "findAvailablePort isAvailable startPort endPort") auto

lemma scanRange_None:
  "scanRange isAvailable port endPort failedPorts = None \<Longrightarrow>
   port \<le> x \<Longrightarrow> x \<le> endPort \<Longrightarrow> x \<notin> failedPorts \<Longrightarrow> \<not> isAvailable x"
proof (induction isAvailable port endPort failedPorts rule: scanRange.induct)
  case (1 isAvailable port endPort failedPorts)
  from "1.prems" have le: "port \<le> endPort" by simp
  show ?case
  proof (cases "port \<in> failedPorts")
    case True
    with le "1.prems"(1) have "scanRange isAvailable (port + 1) endPort failedPorts = None"
      by (subst (asm) scanRange.simps) simp
    moreover from True "1.prems" have "port + 1 \<le> x" by (cases "x = port") auto
    ultimately show ?thesis
      using "1.IH"(1) [OF le True] "1.prems" by simp
  next
    case False
    with le "1.prems"(1) have no: "\<not> isAvailable port"
      by (subst (asm) scanRange.simps) (simp split: if_splits)
    with le False "1.prems"(1) have
      rest: "scanRange isAvailable (port + 1) endPort (insert port failedPorts) = None"
      by (subst (asm) scanRange.simps) simp
    show ?thesis
    proof (cases "x = port")
      case True
      with no show ?thesis by simp
    next
      case ne: False
      with "1.prems" have "port + 1 \<le> x" and "x \<notin> insert port failedPorts" by simp_all
      with "1.IH"(2) [OF le False no rest] "1.prems" show ?thesis by simp
    qed
  qed
qed

text \<open>
  With a free port at or above \<open>startPort\<close> the search returns: the allocator
  succeeds unless every port it can reach fails.
\<close>

lemma findAvailablePort_returns:
  assumes "isAvailable q" and "startPort \<le> q" and "startPort \<le> endPort"
  shows "\<exists>r. findAvailablePort isAvailable startPort endPort = Some r"
  using assms
proof (induction "nat (q - startPort)" arbitrary: startPort endPort rule: less_induct)
  case less
  show ?case
  proof (cases "scanRange isAvailable startPort endPort {}")
    case (Some port)
    then show ?thesis
      by (subst findAvailablePort.simps) simp
  next
    case None
    have beyond: "endPort + 1 \<le> q"
    proof (rule ccontr)
      assume "\<not> endPort + 1 \<le> q"
      with less.prems have "startPort \<le> q" and "q \<le> endPort" by simp_all
      with scanRange_None [OF None] have "\<not> isAvailable q" by simp
      with less.prems show False by simp
    qed
    with less.prems have "nat (q - (endPort + 1)) < nat (q - startPort)"
      by simp
    from less.hyps [OF this less.prems(1) beyond, of "endPort + 100"] obtain r where
      "findAvailablePort isAvailable (endPort + 1) (endPort + 100) = Some r"
      by auto
    with None show ?thesis
      by (subst findAvailablePort.simps) (simp split: prod.splits)
  qed
qed

section \<open>Properties of the worker's handlers\<close>

lemma workerRun_snoc:
  "workerRun mw w (evs @ [ev]) = fst (workerHandler mw ev (workerRun mw w evs))"
  by (simp add: workerRun_def)

lemma apiErrors_handler:
  "apiErrors (fst (workerHandler mw ev w)) = apiErrors w @ errorEntry ev"
  by (cases ev) (simp_all add: pythonStdout_def pythonStderr_def Let_def)

lemma apiErrors_run:
  "apiErrors (workerRun mw w evs) = apiErrors w @ collectedErrors evs"
  by (induction evs rule: rev_induct)
     (simp_all add: workerRun_snoc apiErrors_handler collectedErrors_def, simp add: workerRun_def)

text \<open>
  Claim C5, as amended. When a worker closes with an exit code other than 0
  (\<^verbatim>\<open>null\<close> included) before its handlers saw a ready marker, and there is a window,
  the supervisor sends one \<^verbatim>\<open>api-error\<close>: \<^verbatim>\<open>API failed to start:\<close> followed by the
  entries of \<^verbatim>\<open>apiErrors\<close> joined with a comma and a space, or, when nothing was
  collected, \<^verbatim>\<open>API process exited with code\<close> and the code. The entries collected
  from a fresh worker are the stderr chunks classified as errors and one fixed entry for
  each stdout chunk with an authentication failure marker. A close with exit code 0
  sends nothing.
\<close>

theorem close_before_ready_reports_collected_errors:
  assumes "pid < length (workers s)" and "mainWindow s"
    and "\<not> apiStartedLocal (workers s ! pid)" and "code \<noteq> Some 0"
  shows "sent (deliver pid (WClose code) s) =
           sent s @ [ApiError (if apiErrors (workers s ! pid) \<noteq> []
                               then ''API failed to start: '' @ join '', '' (apiErrors (workers s ! pid))
                               else ''API process exited with code '' @ codeString code)]
       \<and> apiErrors (workerRun mw (newWorker port) evs) = collectedErrors evs
       \<and> sent (deliver pid (WClose (Some 0)) s) = sent s"
  using assms
  by (simp add: deliver_def pythonClose_def sendIf_def apiErrors_run newWorker_def)


theorem close_before_ready_witness:
  "sent (deliver 0 (WClose (Some 1))
      ((initialState Map.empty)\<lparr>mainWindow := True,
         workers := [workerRun True (newWorker 8000)
            [WStderr ''Traceback: boom'', WStderr ''INFO: waiting'', WStdout ''Invalid client'']]\<rparr>))
     = [ApiError ''API failed to start: Traceback: boom, Authentication failed: Invalid credentials'']
   \<and> sent (deliver 0 (WClose None)
      ((initialState Map.empty)\<lparr>mainWindow := True, workers := [newWorker 8000]\<rparr>))
     = [ApiError ''API process exited with code null'']
   \<and> apiErrors (workerRun True (newWorker 8000)
         [WStderr ''Traceback: boom'', WStderr ''INFO: waiting'', WStdout ''Invalid client''])
     = [''Traceback: boom'', ''Authentication failed: Invalid credentials'']"
proof -
  let ?evs = "[WStderr ''Traceback: boom'', WStderr ''INFO: waiting'', WStdout ''Invalid client'']"
  let ?w = "workerRun True (newWorker 8000) ?evs"
  let ?s = "(initialState Map.empty)\<lparr>mainWindow := True, workers := [?w]\<rparr>"
  let ?t = "(initialState Map.empty)\<lparr>mainWindow := True, workers := [newWorker 8000]\<rparr>"
  have w: "?w = (newWorker 8000)\<lparr>apiErrors :=
      [''Traceback: boom'', ''Authentication failed: Invalid credentials'']\<rparr>"
    by (simp add: workerRun_def pythonStderr_def pythonStdout_def newWorker_def sendIf_def)
  have c: "collectedErrors ?evs = [''Traceback: boom'', ''Authentication failed: Invalid credentials'']"
    by (simp add: collectedErrors_def)
  have s: "0 < length (workers ?s)" "mainWindow ?s" "\<not> apiStartedLocal (workers ?s ! 0)"
    "sent ?s = []" "apiErrors (workers ?s ! 0) =
       [''Traceback: boom'', ''Authentication failed: Invalid credentials'']"
    unfolding w by (simp_all add: newWorker_def initialState_def)
  have t: "0 < length (workers ?t)" "mainWindow ?t" "\<not> apiStartedLocal (workers ?t ! 0)"
    "sent ?t = []" "apiErrors (workers ?t ! 0) = []"
    by (simp_all add: newWorker_def initialState_def)
  have code: "Some (1::int) \<noteq> Some 0" "(None :: int option) \<noteq> Some 0"
    by simp_all
  from close_before_ready_reports_collected_errors [OF s(1) s(2) s(3) code(1), of True 8000 ?evs]
    close_before_ready_reports_collected_errors [OF t(1) t(2) t(3) code(2), of True 8000 ?evs]
    s(4,5) t(4,5) c
  show ?thesis by simp
qed

text \<open>
  Claim C5 as stated fails: after a stdout chunk with \<^verbatim>\<open>Authentication failed\<close> no
  stderr line has been classified as an error, and the exit with code 1 is still not
  reported with its exit code but as a joined list holding only the entry that the
  stdout handler added. And an exit with code 0 before the ready marker reports nothing.
\<close>

theorem stdout_failure_is_reported_instead_of_exit_code:
  "stderrErrorLines [WStdout ''Authentication failed''] = []
   \<and> \<not> apiStartedLocal (workerRun True (newWorker 8000) [WStdout ''Authentication failed''])
   \<and> pythonClose True (Some 1) (workerRun True (newWorker 8000) [WStdout ''Authentication failed''])
       = [ApiError ''API failed to start: Authentication failed: Invalid credentials'']
   \<and> pythonClose True (Some 0) (newWorker 8000) = []"
  by (simp add: stderrErrorLines_def workerRun_def pythonStdout_def pythonClose_def newWorker_def
      sendIf_def)

text \<open>
  Claim C7. A stderr chunk that starts with \<^verbatim>\<open>INFO:\<close> is not an error: it adds
  nothing to \<^verbatim>\<open>apiErrors\<close> and no \<^verbatim>\<open>api-error\<close> is sent. It is still scanned for
  the ready marker: with \<^verbatim>\<open>Application startup complete\<close> or \<^verbatim>\<open>Uvicorn running\<close>
  in it the worker counts as started and \<^verbatim>\<open>api-ready\<close> is sent with the port (if
  there is a window); otherwise nothing is sent at all.
\<close>

theorem info_line_on_stderr_is_not_an_error:
  assumes "startsWith output ''INFO:''" and "pid < length (workers s)"
  shows "errorEntry (WStderr output) = []
       \<and> apiErrors (workers (deliver pid (WStderr output) s) ! pid) = apiErrors (workers s ! pid)
       \<and> sent (deliver pid (WStderr output) s) =
           sent s @ (if (str_includes output ''Application startup complete''
                          \<or> str_includes output ''Uvicorn running'') \<and> mainWindow s
                     then [ApiReady (workerPort (workers s ! pid))] else [])
       \<and> apiStartedLocal (workers (deliver pid (WStderr output) s) ! pid) =
           (apiStartedLocal (workers s ! pid)
            \<or> str_includes output ''Application startup complete''
            \<or> str_includes output ''Uvicorn running'')"
  using assms by (auto simp add: deliver_def pythonStderr_def sendIf_def)

theorem info_line_witness:
  "startsWith ''INFO: 127.0.0.1 - GET /health'' ''INFO:''
   \<and> apiErrors (workers (deliver 0 (WStderr ''INFO: 127.0.0.1 - GET /health'')
        ((initialState Map.empty)\<lparr>mainWindow := True, workers := [newWorker 8000]\<rparr>)) ! 0) = []
   \<and> sent (deliver 0 (WStderr ''INFO: 127.0.0.1 - GET /health'')
        ((initialState Map.empty)\<lparr>mainWindow := True, workers := [newWorker 8000]\<rparr>)) = []
   \<and> sent (deliver 0 (WStderr ''INFO:     Uvicorn running on http://0.0.0.0:8000'')
        ((initialState Map.empty)\<lparr>mainWindow := True, workers := [newWorker 8000]\<rparr>))
       = [ApiReady 8000]"
proof -
  let ?s = "(initialState Map.empty)\<lparr>mainWindow := True, workers := [newWorker 8000]\<rparr>"
  have a: "startsWith ''INFO: 127.0.0.1 - GET /health'' ''INFO:''"
    by simp
  have b: "startsWith ''INFO:     Uvicorn running on http://0.0.0.0:8000'' ''INFO:''"
    by simp
  have s: "0 < length (workers ?s)"
    by (simp add: initialState_def)
  have v: "sent ?s = []" "apiErrors (workers ?s ! 0) = []" "mainWindow ?s"
    "workerPort (workers ?s ! 0) = 8000"
    by (simp_all add: initialState_def newWorker_def)
  from info_line_on_stderr_is_not_an_error [OF a s] info_line_on_stderr_is_not_an_error [OF b s] a v
  show ?thesis by simp
qed

section \<open>Properties of start-up, logout and login\<close>

lemma storePorts_other:
  "k \<noteq> ''nextJsPort'' \<Longrightarrow> store (storePorts ports s) k = store s k"
  unfolding storePorts_def
  by (induction ports arbitrary: s) simp_all

lemma storePorts_fields:
  "pythonProcess (storePorts ports s) = pythonProcess s"
  "workers (storePorts ports s) = workers s"
  "verifications (storePorts ports s) = verifications s"
  unfolding storePorts_def
  by (induction ports arbitrary: s) simp_all

lemma killWorker_fields:
  "store (killWorker pid s) = store s" "pythonProcess (killWorker pid s) = pythonProcess s"
  "length (workers (killWorker pid s)) = length (workers s)"
  "sent (killWorker pid s) = sent s" "mainWindow (killWorker pid s) = mainWindow s"
  "verifications (killWorker pid s) = verifications s"
  "nextProcess (killWorker pid s) = nextProcess s"
  by (simp_all add: killWorker_def)

lemma killExisting_fields:
  "store (killExisting s) = store s" "pythonProcess (killExisting s) = None"
  "length (workers (killExisting s)) = length (workers s)"
  "sent (killExisting s) = sent s" "mainWindow (killExisting s) = mainWindow s"
  "verifications (killExisting s) = verifications s"
  by (simp_all add: killExisting_def killWorker_fields split: option.splits)

lemma liveWorkers_killWorker:
  "liveWorkers (killWorker pid s) = filter (\<lambda>p. p \<noteq> pid) (liveWorkers s)"
proof (cases "pid < length (workers s)")
  case True
  then show ?thesis
    by (auto simp add: liveWorkers_def killWorker_def nth_list_update intro!: filter_cong)
next
  case False
  then show ?thesis
    by (auto simp add: liveWorkers_def killWorker_def intro!: filter_cong)
qed

lemma liveWorkers_cong:
  "workers t = workers s \<Longrightarrow> liveWorkers t = liveWorkers s"
  by (simp add: liveWorkers_def)

lemma liveWorkers_killExisting:
  "liveWorkers (killExisting s) = filter (\<lambda>p. Some p \<noteq> pythonProcess s) (liveWorkers s)"
proof (cases "pythonProcess s")
  case None
  then show ?thesis by (simp add: killExisting_def)
next
  case (Some pid)
  have "liveWorkers ((killWorker pid s)\<lparr>pythonProcess := None\<rparr>) = liveWorkers (killWorker pid s)"
    by (rule liveWorkers_cong) simp
  with Some show ?thesis
    by (simp add: killExisting_def liveWorkers_killWorker)
qed

text \<open>
  Claim C8. Whatever the store held when the host process started, and however the
  development server fares, the callback of \<^verbatim>\<open>app.whenReady()\<close> leaves
  \<^verbatim>\<open>isLoggedIn\<close> at \<^verbatim>\<open>false\<close> and no \<^verbatim>\<open>graphCredentials\<close> in the store. The
  reset comes first in the callback, before \<^verbatim>\<open>createWindow\<close> brings up the renderer
  that can send \<^verbatim>\<open>login\<close>. No worker and no verification process is started by the
  callback and the module refers to no worker afterwards: nothing logs in by itself.
\<close>

theorem whenReady_forces_logged_out:
  "store (whenReady e ports outcome s) ''isLoggedIn'' = Some (VBool False)
   \<and> store (whenReady e ports outcome s) ''graphCredentials'' = None
   \<and> pythonProcess (whenReady e ports outcome s) = None
   \<and> length (workers (whenReady e ports outcome s)) = length (workers s)
   \<and> verifications (whenReady e ports outcome s) = verifications s"
  by (cases outcome)
     (simp_all add: whenReady_def Let_def forceReset_def createWindow_def showErrorPage_def
        killExisting_fields storePorts_other storePorts_fields)

text \<open>
  What \<^verbatim>\<open>logout\<close> does from every state: it answers \<^verbatim>\<open>{success: true}\<close>, deletes
  \<^verbatim>\<open>graphCredentials\<close> from the store, sets \<^verbatim>\<open>isLoggedIn\<close> to \<^verbatim>\<open>false\<close> and
  leaves \<^verbatim>\<open>pythonProcess\<close> at \<^verbatim>\<open>null\<close>; of the running workers it removes the one
  that \<^verbatim>\<open>pythonProcess\<close> referred to, and no other.
\<close>

lemma logout_clears_session:
  "fst (logout e s) = \<lparr>success = True, message = None\<rparr>
   \<and> store (snd (logout e s)) ''graphCredentials'' = None
   \<and> store (snd (logout e s)) ''isLoggedIn'' = Some (VBool False)
   \<and> pythonProcess (snd (logout e s)) = None
   \<and> liveWorkers (snd (logout e s)) = filter (\<lambda>pid. Some pid \<noteq> pythonProcess s) (liveWorkers s)
   \<and> length (workers (snd (logout e s))) = length (workers s)"
proof -
  have result: "fst (logout e s) = \<lparr>success = True, message = None\<rparr>"
    by (simp add: logout_def Let_def)
  have fields: "store (snd (logout e s)) ''graphCredentials'' = None"
    "store (snd (logout e s)) ''isLoggedIn'' = Some (VBool False)"
    "pythonProcess (snd (logout e s)) = None"
    "length (workers (snd (logout e s))) = length (workers s)"
    by (simp_all add: logout_def Let_def killWorker_fields split: option.splits)
  have "workers (snd (logout e s)) = workers (killExisting s)"
    by (simp add: logout_def Let_def killExisting_def killWorker_def split: option.splits)
  then have "liveWorkers (snd (logout e s)) = liveWorkers (killExisting s)"
    by (rule liveWorkers_cong)
  then have live: "liveWorkers (snd (logout e s))
      = filter (\<lambda>pid. Some pid \<noteq> pythonProcess s) (liveWorkers s)"
    by (simp add: liveWorkers_killExisting)
  from result fields live show ?thesis
    by simp
qed

text \<open>
  Claim C10. When \<^verbatim>\<open>clientId\<close>, \<^verbatim>\<open>clientSecret\<close> or \<^verbatim>\<open>tenantId\<close> is missing or
  empty, \<^verbatim>\<open>login\<close> returns \<^verbatim>\<open>{success: false, message: 'All fields are required'}\<close>
  and the state is the one it started from: the store, the worker processes and the
  handle are untouched, no verification process was spawned and nothing was sent.
\<close>

theorem login_requires_all_fields:
  assumes "falsy (clientId creds) \<or> falsy (clientSecret creds) \<or> falsy (tenantId creds)"
  shows "login e vevs isAvailable creds s =
           Some (\<lparr>success = False, message = Some ''All fields are required''\<rparr>, s)"
  using assms by (simp add: login_def)

theorem login_requires_all_fields_witness:
  "falsy (clientSecret \<lparr>clientId = Some ''id'', clientSecret = Some [], tenantId = None\<rparr>)
   \<and> login \<lparr>possibleApiPaths = [''api/api.py''], existsSync = (\<lambda>p. True), development = False,
       spawnError = (\<lambda>c. None)\<rparr>
       [Stdout ''Authentication successful''] (\<lambda>p. True)
       \<lparr>clientId = Some ''id'', clientSecret = Some [], tenantId = None\<rparr>
       (createWindow (initialState Map.empty))
     = Some (\<lparr>success = False, message = Some ''All fields are required''\<rparr>,
             createWindow (initialState Map.empty))"
proof -
  have a: "falsy (clientId \<lparr>clientId = Some ''id'', clientSecret = Some [], tenantId = None\<rparr>)
     \<or> falsy (clientSecret \<lparr>clientId = Some ''id'', clientSecret = Some [], tenantId = None\<rparr>)
     \<or> falsy (tenantId \<lparr>clientId = Some ''id'', clientSecret = Some [], tenantId = None\<rparr>)"
    by simp
  from login_requires_all_fields [OF a] show ?thesis
    by simp
qed

section \<open>Properties of the single-worker discipline\<close>

lemma findAvailablePortFrom_free:
  "isAvailable startPort \<Longrightarrow> findAvailablePortFrom isAvailable startPort = Some (startPort, [])"
  unfolding findAvailablePortFrom_def
  by (rule findAvailablePort_found) auto

lemma liveWorkers_spawn:
  "workers t = workers s @ [newWorker port] \<Longrightarrow>
   liveWorkers t = liveWorkers s @ [length (workers s)]"
  by (auto simp add: liveWorkers_def newWorker_def nth_append intro!: filter_cong)

lemma startPythonApi_live:
  "liveWorkers (fst (startPythonApi e port s)) =
     filter (\<lambda>p. Some p \<noteq> pythonProcess s) (liveWorkers s)
     @ (case snd (startPythonApi e port s) of None \<Rightarrow> [] | Some pid \<Rightarrow> [pid])"
proof -
  obtain msgs r where f: "findApiPath e (mainWindow (killExisting s)) = (msgs, r)"
    by (cases "findApiPath e (mainWindow (killExisting s))")
  let ?spawns = "truthyVal (store (killExisting s) ''graphCredentials'') \<and> (\<exists>p. r = Inr p)
      \<and> spawnError e (credsOf (store (killExisting s) ''graphCredentials'')) = None"
  have spawned: "?spawns
      \<Longrightarrow> workers (fst (startPythonApi e port s)) = workers (killExisting s) @ [newWorker port]
          \<and> snd (startPythonApi e port s) = Some (length (workers (killExisting s)))"
    using f by (auto simp add: startPythonApi_def Let_def)
  have refused: "\<not> ?spawns
      \<Longrightarrow> workers (fst (startPythonApi e port s)) = workers (killExisting s)
          \<and> snd (startPythonApi e port s) = None"
    using f by (cases r) (auto simp add: startPythonApi_def Let_def split: option.splits)
  show ?thesis
  proof (cases ?spawns)
    case True
    from spawned [OF True] have
      "liveWorkers (fst (startPythonApi e port s))
         = liveWorkers (killExisting s) @ [length (workers (killExisting s))]"
      by (intro liveWorkers_spawn) simp
    with spawned [OF True] show ?thesis
      by (simp add: liveWorkers_killExisting)
  next
    case False
    from refused [OF False] have
      "liveWorkers (fst (startPythonApi e port s)) = liveWorkers (killExisting s)"
      by (intro liveWorkers_cong) simp
    with refused [OF False] show ?thesis
      by (simp add: liveWorkers_killExisting)
  qed
qed

lemma startPythonApi_handle:
  "pythonProcess (fst (startPythonApi e port s)) = snd (startPythonApi e port s)"
  by (cases "findApiPath e (mainWindow (killExisting s))")
     (simp add: startPythonApi_def Let_def killExisting_fields split: sum.splits option.splits)

text \<open>
  The start path on its own keeps the discipline: when every running worker is the one
  the module refers to, the same holds after \<^verbatim>\<open>startPythonApi\<close>.
\<close>

lemma startPythonApi_keeps_tracking:
  assumes "set (liveWorkers s) \<subseteq> set_option (pythonProcess s)"
  shows "set (liveWorkers (fst (startPythonApi e port s)))
           \<subseteq> set_option (pythonProcess (fst (startPythonApi e port s)))"
proof -
  from assms have "filter (\<lambda>p. Some p \<noteq> pythonProcess s) (liveWorkers s) = []"
    by (auto simp add: filter_empty_conv)
  then show ?thesis
    by (auto simp add: startPythonApi_live startPythonApi_handle split: option.splits)
qed

lemma killExisting_idle: "pythonProcess s = None \<Longrightarrow> killExisting s = s"
  by (simp add: killExisting_def)

lemma login_success:
  assumes found: "findApiPath e (mainWindow s) = ([], Inr p)"
    and valid: "promise (verifyCredentials e (mainWindow s) c vevs) = Some (Resolved True)"
    and free: "isAvailable 8000"
    and fields: "\<not> falsy (clientId c)" "\<not> falsy (clientSecret c)" "\<not> falsy (tenantId c)"
    and spawned: "spawnError e c = None"
  shows "\<exists>r t. login e vevs isAvailable c s = Some (r, t) \<and> success r
           \<and> workers t = workers (killExisting s) @ [newWorker 8000]
           \<and> pythonProcess t = Some (length (workers s))
           \<and> mainWindow t = mainWindow s"
proof -
  let ?s1 = "killExisting s"
  let ?s2 = "?s1\<lparr>sent := sent ?s1 @ verifySent (verifyCredentials e (mainWindow s) c vevs),
      verifications := Suc (verifications ?s1)\<rparr>"
  let ?s3 = "?s2\<lparr>store := (store ?s2)(''graphCredentials'' \<mapsto> VCreds c,
      ''isLoggedIn'' \<mapsto> VBool True)\<rparr>"
  have idle: "killExisting ?s3 = ?s3"
    by (rule killExisting_idle) (simp add: killExisting_fields)
  have start: "startPythonApi e 8000 ?s3 =
      (?s3\<lparr>workers := workers ?s3 @ [newWorker 8000], pythonProcess := Some (length (workers ?s3))\<rparr>,
       Some (length (workers ?s3)))"
    unfolding startPythonApi_def idle
    by (simp add: killExisting_fields found spawned)
  have "login e vevs isAvailable c s =
      Some (\<lparr>success = True, message = None\<rparr>,
            (fst (startPythonApi e 8000 ?s3))
              \<lparr>store := (store (fst (startPythonApi e 8000 ?s3)))(''apiPort'' \<mapsto> VNum 8000),
                apiPort := Some 8000\<rparr>)"
    using fields valid free
    by (simp add: login_def Let_def findAvailablePortFrom_free [of isAvailable 8000] found
        killExisting_fields spawned)
  then show ?thesis
    unfolding start by (simp add: killExisting_fields)
qed

lemma tracked_killExisting: "tracked s \<Longrightarrow> liveWorkers (killExisting s) = []"
  by (auto simp add: tracked_def liveWorkers_killExisting filter_empty_conv)

lemma tracked_startPythonApi: "tracked s \<Longrightarrow> tracked (fst (startPythonApi e port s))"
  unfolding tracked_def by (rule startPythonApi_keeps_tracking)

lemma tracked_logout: "tracked s \<Longrightarrow> liveWorkers (snd (logout e s)) = []"
proof -
  assume "tracked s"
  then have "filter (\<lambda>pid. Some pid \<noteq> pythonProcess s) (liveWorkers s) = []"
    by (auto simp add: tracked_def filter_empty_conv)
  moreover have "workers (snd (logout e s)) = workers (killExisting s)"
    by (simp add: logout_def Let_def killExisting_def killWorker_def split: option.splits)
  then have "liveWorkers (snd (logout e s)) = liveWorkers (killExisting s)"
    by (rule liveWorkers_cong)
  ultimately show ?thesis
    by (simp add: liveWorkers_killExisting)
qed

lemma liveWorkers_close:
  "pid < length (workers s) \<Longrightarrow>
   liveWorkers (deliver pid (WClose code) s) = filter (\<lambda>p. p \<noteq> pid) (liveWorkers s)"
  by (auto simp add: liveWorkers_def deliver_def nth_list_update intro!: filter_cong)

text \<open>
  The \<^verbatim>\<open>close\<close> event of the process the module refers to keeps the discipline; the
  one of a process that was replaced need not (claim C4).
\<close>

lemma tracked_close_of_current:
  assumes "tracked s" and "pythonProcess s = Some pid"
  shows "tracked (deliver pid (WClose code) s)"
proof (cases "pid < length (workers s)")
  case True
  from assms have "filter (\<lambda>p. p \<noteq> pid) (liveWorkers s) = []"
    by (auto simp add: tracked_def filter_empty_conv)
  with True show ?thesis
    by (simp add: tracked_def liveWorkers_close)
next
  case False
  with assms show ?thesis
    by (simp add: deliver_def)
qed

text \<open>
  Two logins with valid credentials, and then the \<^verbatim>\<open>close\<close> event of the first
  worker, which the second login killed: the second worker is running and the module
  refers to no worker.
\<close>

lemma valid_login_spawns:
  "\<exists>r t. login \<lparr>possibleApiPaths = [''api/api.py''], existsSync = (\<lambda>p. True), development = False,
        spawnError = (\<lambda>c. None)\<rparr> [Stdout ''Authentication successful''] (\<lambda>p. True)
             \<lparr>clientId = Some ''id'', clientSecret = Some ''secret'', tenantId = Some ''tenant''\<rparr> s = Some (r, t)
         \<and> workers t = workers (killExisting s) @ [newWorker 8000]
         \<and> pythonProcess t = Some (length (workers s))"
proof -
  let ?e = "\<lparr>possibleApiPaths = [''api/api.py''], existsSync = (\<lambda>p. True), development = False,
        spawnError = (\<lambda>c. None)\<rparr>"
  let ?c = "\<lparr>clientId = Some ''id'', clientSecret = Some ''secret'', tenantId = Some ''tenant''\<rparr>"
  have found: "findApiPath ?e mw = ([], Inr ''api/api.py'')" for mw
    by (simp add: findApiPath_def)
  have valid: "promise (verifyCredentials ?e mw ?c [Stdout ''Authentication successful''])
      = Some (Resolved True)" for mw
    by (simp add: verifyCredentials_def found verifyRun_def verifyStdout_def verifyInit_def
        resolve_def)
  have "\<exists>r t. login ?e [Stdout ''Authentication successful''] (\<lambda>p. True) ?c s = Some (r, t)
      \<and> success r
      \<and> workers t = workers (killExisting s) @ [newWorker 8000]
      \<and> pythonProcess t = Some (length (workers s))
      \<and> mainWindow t = mainWindow s"
    by (rule login_success [OF found valid]) simp_all
  then show ?thesis by blast
qed

lemma stale_close_trace:
  "\<exists>r1 s1 r2 s2.
     login \<lparr>possibleApiPaths = [''api/api.py''], existsSync = (\<lambda>p. True), development = False,
        spawnError = (\<lambda>c. None)\<rparr> [Stdout ''Authentication successful''] (\<lambda>p. True)
       \<lparr>clientId = Some ''id'', clientSecret = Some ''secret'', tenantId = Some ''tenant''\<rparr> (createWindow (initialState Map.empty)) = Some (r1, s1)
     \<and> login \<lparr>possibleApiPaths = [''api/api.py''], existsSync = (\<lambda>p. True), development = False,
        spawnError = (\<lambda>c. None)\<rparr> [Stdout ''Authentication successful''] (\<lambda>p. True)
         \<lparr>clientId = Some ''id'', clientSecret = Some ''secret'', tenantId = Some ''tenant''\<rparr> s1 = Some (r2, s2)
     \<and> workers s1 = [newWorker 8000]
     \<and> workers s2 = [(newWorker 8000)\<lparr>killed := True\<rparr>, newWorker 8000]
     \<and> pythonProcess s2 = Some 1
     \<and> workers (deliver 0 (WClose None) s2)
         = [(newWorker 8000)\<lparr>killed := True, closed := True\<rparr>, newWorker 8000]
     \<and> pythonProcess (deliver 0 (WClose None) s2) = None"
proof -
  let ?s0 = "createWindow (initialState Map.empty)"
  from valid_login_spawns [of ?s0] obtain r1 s1 where
    l1: "login \<lparr>possibleApiPaths = [''api/api.py''], existsSync = (\<lambda>p. True), development = False,
        spawnError = (\<lambda>c. None)\<rparr> [Stdout ''Authentication successful''] (\<lambda>p. True) \<lparr>clientId = Some ''id'', clientSecret = Some ''secret'', tenantId = Some ''tenant''\<rparr> ?s0 = Some (r1, s1)"
    and w1: "workers s1 = workers (killExisting ?s0) @ [newWorker 8000]"
    and h1: "pythonProcess s1 = Some (length (workers ?s0))"
    by blast
  have w1': "workers s1 = [newWorker 8000]" and h1': "pythonProcess s1 = Some 0"
    using w1 h1 by (simp_all add: killExisting_def createWindow_def initialState_def)
  from valid_login_spawns [of s1] obtain r2 s2 where
    l2: "login \<lparr>possibleApiPaths = [''api/api.py''], existsSync = (\<lambda>p. True), development = False,
        spawnError = (\<lambda>c. None)\<rparr> [Stdout ''Authentication successful''] (\<lambda>p. True) \<lparr>clientId = Some ''id'', clientSecret = Some ''secret'', tenantId = Some ''tenant''\<rparr> s1 = Some (r2, s2)"
    and w2: "workers s2 = workers (killExisting s1) @ [newWorker 8000]"
    and h2: "pythonProcess s2 = Some (length (workers s1))"
    by blast
  have w2': "workers s2 = [(newWorker 8000)\<lparr>killed := True\<rparr>, newWorker 8000]"
    and h2': "pythonProcess s2 = Some 1"
    using w2 h2 by (simp_all add: killExisting_def killWorker_def w1' h1')
  have wd: "workers (deliver 0 (WClose None) s2)
      = [(newWorker 8000)\<lparr>killed := True, closed := True\<rparr>, newWorker 8000]"
    and hd: "pythonProcess (deliver 0 (WClose None) s2) = None"
    by (simp_all add: deliver_def w2' Let_def)
  from l1 l2 w1' w2' h2' wd hd show ?thesis by blast
qed

lemma upt_small: "[0..<2] = [0, Suc 0]" "[0..<3] = [0, Suc 0, 2]"
  by (simp_all add: upt_rec numeral_2_eq_2 numeral_3_eq_3)

text \<open>
  Claim C4 says that at every instant at most one worker process is live. The code
  does not keep this. The \<^verbatim>\<open>close\<close> handler that \<^verbatim>\<open>startPythonApi\<close> registers on a
  worker sets the module's \<^verbatim>\<open>pythonProcess\<close> to \<^verbatim>\<open>null\<close> without checking that
  the process that closed is the one the variable refers to. Three logins with valid
  credentials, with the \<^verbatim>\<open>close\<close> event of the first worker (killed by the second
  login) delivered after the second login has spawned its worker: the event drops the
  reference to the second worker, the third login finds nothing to kill, and the
  second and the third worker run side by side.
\<close>

theorem stale_close_leaves_two_live_workers:
  "(let e = \<lparr>possibleApiPaths = [''api/api.py''], existsSync = (\<lambda>p. True), development = False,
        spawnError = (\<lambda>c. None)\<rparr>;
        c = \<lparr>clientId = Some ''id'', clientSecret = Some ''secret'', tenantId = Some ''tenant''\<rparr>;
        ok = [Stdout ''Authentication successful''];
        free = (\<lambda>p. True)
    in Option.bind (login e ok free c (createWindow (initialState Map.empty))) (\<lambda>(r1, s1).
       Option.bind (login e ok free c s1) (\<lambda>(r2, s2).
       Option.bind (login e ok free c (deliver 0 (WClose None) s2)) (\<lambda>(r3, s3).
         Some (liveWorkers s1, pythonProcess s2, liveWorkers s2,
               pythonProcess (deliver 0 (WClose None) s2),
               liveWorkers (deliver 0 (WClose None) s2),
               pythonProcess s3, liveWorkers s3)))))
   = Some ([0], Some 1, [1], None, [1], Some 2, [1, 2])"
proof -
  from stale_close_trace obtain r1 s1 r2 s2 where
    l1: "login \<lparr>possibleApiPaths = [''api/api.py''], existsSync = (\<lambda>p. True), development = False,
        spawnError = (\<lambda>c. None)\<rparr> [Stdout ''Authentication successful''] (\<lambda>p. True) \<lparr>clientId = Some ''id'', clientSecret = Some ''secret'', tenantId = Some ''tenant''\<rparr>
           (createWindow (initialState Map.empty)) = Some (r1, s1)"
    and l2: "login \<lparr>possibleApiPaths = [''api/api.py''], existsSync = (\<lambda>p. True), development = False,
        spawnError = (\<lambda>c. None)\<rparr> [Stdout ''Authentication successful''] (\<lambda>p. True) \<lparr>clientId = Some ''id'', clientSecret = Some ''secret'', tenantId = Some ''tenant''\<rparr> s1 = Some (r2, s2)"
    and w1: "workers s1 = [newWorker 8000]"
    and w2: "workers s2 = [(newWorker 8000)\<lparr>killed := True\<rparr>, newWorker 8000]"
    and h2: "pythonProcess s2 = Some 1"
    and wd: "workers (deliver 0 (WClose None) s2)
        = [(newWorker 8000)\<lparr>killed := True, closed := True\<rparr>, newWorker 8000]"
    and hd: "pythonProcess (deliver 0 (WClose None) s2) = None"
    by blast
  let ?d = "deliver 0 (WClose None) s2"
  from valid_login_spawns [of ?d] obtain r3 s3 where
    l3: "login \<lparr>possibleApiPaths = [''api/api.py''], existsSync = (\<lambda>p. True), development = False,
        spawnError = (\<lambda>c. None)\<rparr> [Stdout ''Authentication successful''] (\<lambda>p. True) \<lparr>clientId = Some ''id'', clientSecret = Some ''secret'', tenantId = Some ''tenant''\<rparr> ?d = Some (r3, s3)"
    and w3: "workers s3 = workers (killExisting ?d) @ [newWorker 8000]"
    and h3: "pythonProcess s3 = Some (length (workers ?d))"
    by blast
  have w3': "workers s3 = [(newWorker 8000)\<lparr>killed := True, closed := True\<rparr>, newWorker 8000,
      newWorker 8000]"
    and h3': "pythonProcess s3 = Some 2"
    using w3 h3 by (simp_all add: killExisting_def hd wd)
  have live: "liveWorkers s1 = [0]" "liveWorkers s2 = [1]" "liveWorkers ?d = [1]"
    "liveWorkers s3 = [1, 2]"
    by (simp_all add: liveWorkers_def w1 w2 wd w3' newWorker_def upt_small)
  show ?thesis
    by (simp add: l1 l2 l3 live h2 hd h3')
qed

text \<open>
  Claim C9 says that \<^verbatim>\<open>logout\<close> leaves no live worker, whatever the state before.
  The code does not keep this, by the defect of claim C4: \<^verbatim>\<open>logout\<close> kills the
  process that \<^verbatim>\<open>pythonProcess\<close> refers to and no other. After two logins and the
  late \<^verbatim>\<open>close\<close> event of the first worker the variable is \<^verbatim>\<open>null\<close> while the
  second worker runs; \<^verbatim>\<open>logout\<close> then answers \<^verbatim>\<open>{success: true}\<close>, clears the
  credentials and the flag, finds nothing to kill, and the second worker is still
  running.
\<close>

theorem logout_leaves_unreferenced_worker_running:
  "(let e = \<lparr>possibleApiPaths = [''api/api.py''], existsSync = (\<lambda>p. True), development = False,
        spawnError = (\<lambda>c. None)\<rparr>;
        c = \<lparr>clientId = Some ''id'', clientSecret = Some ''secret'', tenantId = Some ''tenant''\<rparr>;
        ok = [Stdout ''Authentication successful''];
        free = (\<lambda>p. True)
    in Option.bind (login e ok free c (createWindow (initialState Map.empty))) (\<lambda>(r1, s1).
       Option.bind (login e ok free c s1) (\<lambda>(r2, s2).
         Some (fst (logout e (deliver 0 (WClose None) s2)),
               store (snd (logout e (deliver 0 (WClose None) s2))) ''graphCredentials'',
               store (snd (logout e (deliver 0 (WClose None) s2))) ''isLoggedIn'',
               pythonProcess (snd (logout e (deliver 0 (WClose None) s2))),
               liveWorkers (snd (logout e (deliver 0 (WClose None) s2)))))))
   = Some (\<lparr>success = True, message = None\<rparr>, None, Some (VBool False), None, [1])"
proof -
  from stale_close_trace obtain r1 s1 r2 s2 where
    l1: "login \<lparr>possibleApiPaths = [''api/api.py''], existsSync = (\<lambda>p. True), development = False,
        spawnError = (\<lambda>c. None)\<rparr> [Stdout ''Authentication successful''] (\<lambda>p. True) \<lparr>clientId = Some ''id'', clientSecret = Some ''secret'', tenantId = Some ''tenant''\<rparr>
           (createWindow (initialState Map.empty)) = Some (r1, s1)"
    and l2: "login \<lparr>possibleApiPaths = [''api/api.py''], existsSync = (\<lambda>p. True), development = False,
        spawnError = (\<lambda>c. None)\<rparr> [Stdout ''Authentication successful''] (\<lambda>p. True) \<lparr>clientId = Some ''id'', clientSecret = Some ''secret'', tenantId = Some ''tenant''\<rparr> s1 = Some (r2, s2)"
    and wd: "workers (deliver 0 (WClose None) s2)
        = [(newWorker 8000)\<lparr>killed := True, closed := True\<rparr>, newWorker 8000]"
    and hd: "pythonProcess (deliver 0 (WClose None) s2) = None"
    by blast
  let ?d = "deliver 0 (WClose None) s2"
  have live: "liveWorkers ?d = [1]"
    by (simp add: liveWorkers_def wd newWorker_def upt_small)
  note out = logout_clears_session [of "\<lparr>possibleApiPaths = [''api/api.py''], existsSync = (\<lambda>p. True), development = False,
        spawnError = (\<lambda>c. None)\<rparr>" ?d]
  from out have after: "liveWorkers (snd (logout \<lparr>possibleApiPaths = [''api/api.py''], existsSync = (\<lambda>p. True), development = False,
        spawnError = (\<lambda>c. None)\<rparr> ?d)) = [1]"
    by (simp add: hd live)
  from out after show ?thesis
    by (simp add: l1 l2)
qed

end
